theory Spec2Isabelle
  imports Main
begin

section \<open>JavaScript numbers as the countdown code uses them\<close>

text \<open>
  Every number of \<^verbatim>\<open>countdownUtils.ts\<close> is either an integer (an epoch time in
  milliseconds, a count of seconds, minutes or hours) or \<^verbatim>\<open>NaN\<close>, the time value of an
  invalid \<^verbatim>\<open>Date\<close>. A time value is an integer of magnitude at most 8.64e15, below
  \<open>2^53\<close>, and the clock reads a time after 1970, so a positive difference is exact in a
  double, and the finite numbers are modelled as \<open>int\<close>. The only
  quotient that is not an integer is floored at once, so division and
  \<^verbatim>\<open>Math.floor\<close> are one operation here. The caller's \<^verbatim>\<open>showSecondsThreshold\<close> is taken
  as a number of the same kind.
\<close>

datatype jsnum = NaN | Num int

fun js_sub :: "jsnum \<Rightarrow> jsnum \<Rightarrow> jsnum" where
  "js_sub (Num a) (Num b) = Num (a - b)"
| "js_sub _ _ = NaN"

fun js_add :: "jsnum \<Rightarrow> jsnum \<Rightarrow> jsnum" where
  "js_add (Num a) (Num b) = Num (a + b)"
| "js_add _ _ = NaN"

fun js_mul :: "jsnum \<Rightarrow> jsnum \<Rightarrow> jsnum" where
  "js_mul (Num a) (Num b) = Num (a * b)"
| "js_mul _ _ = NaN"

text \<open>\<^verbatim>\<open>Math.max(a, b)\<close>: \<^verbatim>\<open>NaN\<close> as soon as one argument is.\<close>

fun Math_max :: "jsnum \<Rightarrow> jsnum \<Rightarrow> jsnum" where
  "Math_max (Num a) (Num b) = Num (max a b)"
| "Math_max _ _ = NaN"

text \<open>\<^verbatim>\<open>Math.floor(x / k)\<close> for a positive literal \<open>k\<close> (1000, 3600 or 60 in the source).\<close>

fun Math_floor_div :: "jsnum \<Rightarrow> int \<Rightarrow> jsnum" where
  "Math_floor_div (Num a) k = Num (a div k)"
| "Math_floor_div NaN k = NaN"

text \<open>\<^verbatim>\<open>x % k\<close>: the remainder takes the sign of the dividend.\<close>

fun js_rem :: "jsnum \<Rightarrow> int \<Rightarrow> jsnum" where
  "js_rem (Num a) k = (if k = 0 then NaN else Num (sgn a * (\<bar>a\<bar> mod \<bar>k\<bar>)))"
| "js_rem NaN k = NaN"

text \<open>Comparisons: every comparison with \<^verbatim>\<open>NaN\<close> is false, \<^verbatim>\<open>===\<close> included.\<close>

fun js_lt :: "jsnum \<Rightarrow> jsnum \<Rightarrow> bool" where
  "js_lt (Num a) (Num b) = (a < b)"
| "js_lt _ _ = False"

fun js_le :: "jsnum \<Rightarrow> jsnum \<Rightarrow> bool" where
  "js_le (Num a) (Num b) = (a \<le> b)"
| "js_le _ _ = False"

fun js_gt :: "jsnum \<Rightarrow> jsnum \<Rightarrow> bool" where
  "js_gt (Num a) (Num b) = (a > b)"
| "js_gt _ _ = False"

fun js_eq :: "jsnum \<Rightarrow> jsnum \<Rightarrow> bool" where
  "js_eq (Num a) (Num b) = (a = b)"
| "js_eq _ _ = False"

section \<open>Strings\<close>

definition digitChar :: "nat \<Rightarrow> char" where
  "digitChar d = ''0123456789'' ! d"

fun digitsOf :: "nat \<Rightarrow> string" where
  "digitsOf n = (if n < 10 then [digitChar n] else digitsOf (n div 10) @ [digitChar (n mod 10)])"

declare digitsOf.simps [simp del]

text \<open>
  \<^verbatim>\<open>Number.prototype.toString\<close> in base ten, for the integers below 1e21 (beyond
  which JavaScript switches to exponent notation) and for \<^verbatim>\<open>NaN\<close>.
\<close>

fun js_toString :: "jsnum \<Rightarrow> string" where
  "js_toString NaN = ''NaN''"
| "js_toString (Num i) = (if i < 0 then CHR ''-'' # digitsOf (nat (- i)) else digitsOf (nat i))"

text \<open>\<^verbatim>\<open>s.padStart(n, c)\<close> with a one-character filler.\<close>

definition padStart :: "nat \<Rightarrow> char \<Rightarrow> string \<Rightarrow> string" where
  "padStart n c s = replicate (n - length s) c @ s"

text \<open>\<^verbatim>\<open>parts.join(separator)\<close>.\<close>

fun join :: "string \<Rightarrow> string list \<Rightarrow> string" where
  "join sep [] = []"
| "join sep [p] = p"
| "join sep (p # q # ps) = p @ sep @ join sep (q # ps)"

text \<open>
  \<^verbatim>\<open>s.replace(pat, rep)\<close> with a string pattern: only the first occurrence is replaced.
  The replacement is always a string of digits here, so the \<^verbatim>\<open>$\<close> patterns of the
  replacement string play no part.
\<close>

fun replaceFirst :: "string \<Rightarrow> string \<Rightarrow> string \<Rightarrow> string" where
  "replaceFirst pat rep [] = (if pat = [] then rep else [])"
| "replaceFirst pat rep (c # cs) =
     (if take (length pat) (c # cs) = pat then rep @ drop (length pat) (c # cs)
      else c # replaceFirst pat rep cs)"

section \<open>Data model of countdownUtils\<close>

record TimeRemaining =
  hours :: jsnum
  minutes :: jsnum
  seconds :: jsnum
  totalSeconds :: jsnum
  isExpired :: bool

text \<open>
  The target is an ISO date string or a \<^verbatim>\<open>Date\<close> object; a \<^verbatim>\<open>Date\<close> is represented by
  its time value (\<^verbatim>\<open>getTime()\<close>), which is \<^verbatim>\<open>NaN\<close> for an invalid date.
\<close>

datatype target = DateString string | DateObject jsnum

text \<open>
  What a call reads from its host: the wall clock (\<^verbatim>\<open>new Date().getTime()\<close>, always an
  integer) and the date parser of the engine (\<^verbatim>\<open>new Date(s).getTime()\<close>, \<^verbatim>\<open>NaN\<close> for a
  string it cannot parse). The parser is a parameter: the source leaves it to the engine.
\<close>

record env =
  clock :: int
  dateParse :: "string \<Rightarrow> jsnum"

text \<open>
  The options types. \<^verbatim>\<open>{ timezone?: string }\<close> is the parameter type of
  \<^verbatim>\<open>calculateTimeRemaining\<close>; \<^verbatim>\<open>CountdownFormatOptions\<close> has that field too, so it is an
  extension of it. An absent property is \<open>None\<close>.
\<close>

record TimezoneOptions =
  timezone :: "string option"

record CountdownFormatOptions = TimezoneOptions +
  showSecondsThreshold :: "jsnum option"
  separator :: "string option"
  showZeros :: "bool option"

section \<open>calculateTimeRemaining\<close>

text \<open>
  The locals \<^verbatim>\<open>target\<close> and \<^verbatim>\<open>difference\<close> of the function are definitions of their own, so
  that a property can speak of them: the time value of the target, read from a string by
  the engine's parser and from a \<^verbatim>\<open>Date\<close> by \<^verbatim>\<open>getTime()\<close>, and
  \<^verbatim>\<open>Math.max(0, target - now)\<close>. The \<^verbatim>\<open>options\<close> parameter is never read.
\<close>

definition getTime :: "env \<Rightarrow> target \<Rightarrow> jsnum" where
  "getTime e targetDate =
     (case targetDate of DateString s \<Rightarrow> dateParse e s | DateObject d \<Rightarrow> d)"

definition difference :: "env \<Rightarrow> target \<Rightarrow> jsnum" where
  "difference e targetDate =
     (let now = Num (clock e);
          target = getTime e targetDate
      in Math_max (Num 0) (js_sub target now))"

definition calculateTimeRemaining ::
  "env \<Rightarrow> target \<Rightarrow> 'a TimezoneOptions_scheme option \<Rightarrow> TimeRemaining" where
  "calculateTimeRemaining e targetDate options =
     (let totalSeconds = Math_floor_div (difference e targetDate) 1000;
          hours = Math_floor_div totalSeconds 3600;
          minutes = Math_floor_div (js_rem totalSeconds 3600) 60;
          seconds = js_rem totalSeconds 60;
          isExpired = js_le totalSeconds (Num 0)
      in \<lparr> hours = hours, minutes = minutes, seconds = seconds,
           totalSeconds = totalSeconds, isExpired = isExpired \<rparr>)"

section \<open>formatCountdown\<close>

text \<open>
  \<^verbatim>\<open>TranslationOptions\<close>: the translation function receives the key and, for a plural,
  the parameter object \<^verbatim>\<open>{ count }\<close> (\<open>None\<close> when it is called with the key alone).
  The seven message slots of \<^verbatim>\<open>keys\<close> carry the suffix \<open>_key\<close>, since
  \<open>hours\<close>, \<open>minutes\<close> and \<open>seconds\<close> are fields of \<open>TimeRemaining\<close> already.
\<close>

record TranslationKeys =
  availableNow_key :: "string option"
  oneHour_key :: "string option"
  hours_key :: "string option"
  oneMinute_key :: "string option"
  minutes_key :: "string option"
  oneSecond_key :: "string option"
  seconds_key :: "string option"

type_synonym translation = "string \<Rightarrow> jsnum option \<Rightarrow> string"

record FormatCountdownOptions = CountdownFormatOptions +
  t :: "translation option"
  keys :: "TranslationKeys option"

text \<open>\<^verbatim>\<open>options?.x\<close>, also the property \<open>x\<close> of \<^verbatim>\<open>options || {}\<close>.\<close>

definition optional :: "'o option \<Rightarrow> ('o \<Rightarrow> 'a option) \<Rightarrow> 'a option" where
  "optional options sel = (case options of None \<Rightarrow> None | Some opt \<Rightarrow> sel opt)"

text \<open>A destructuring default \<^verbatim>\<open>{ x = d }\<close>: taken when the property is undefined.\<close>

definition orDefault :: "'a option \<Rightarrow> 'a \<Rightarrow> 'a" where
  "orDefault v d = (case v of None \<Rightarrow> d | Some x \<Rightarrow> x)"

text \<open>\<^verbatim>\<open>keys?.slot || d\<close>: the default also replaces an empty string, which is falsy.\<close>

definition keyOr ::
  "TranslationKeys option \<Rightarrow> (TranslationKeys \<Rightarrow> string option) \<Rightarrow> string \<Rightarrow> string" where
  "keyOr ks slot d =
     (case optional ks slot of None \<Rightarrow> d | Some k \<Rightarrow> if k = [] then d else k)"

text \<open>\<^verbatim>\<open>t ? t(key) : key\<close>.\<close>

definition singular :: "translation option \<Rightarrow> string \<Rightarrow> string" where
  "singular tr key = (case tr of Some f \<Rightarrow> f key None | None \<Rightarrow> key)"

text \<open>
  \<^verbatim>\<open>const formatted = key.replace('{{count}}', n.toString());\<close> then
  \<^verbatim>\<open>t ? t(key, { count: n }) : formatted\<close>.
\<close>

definition plural :: "translation option \<Rightarrow> string \<Rightarrow> jsnum \<Rightarrow> string" where
  "plural tr key n =
     (let formatted = replaceFirst ''{{count}}'' (js_toString n) key
      in case tr of Some f \<Rightarrow> f key (Some n) | None \<Rightarrow> formatted)"

definition availableNowText :: "translation option \<Rightarrow> TranslationKeys option \<Rightarrow> string" where
  "availableNowText tr ks = singular tr (keyOr ks availableNow_key ''Available now'')"

text \<open>
  The three blocks of \<^verbatim>\<open>formatCountdown\<close> that push onto \<^verbatim>\<open>parts\<close>, each as the list of
  what it pushes (nothing or one string), in the order of the source.
\<close>

definition hoursPart ::
  "translation option \<Rightarrow> TranslationKeys option \<Rightarrow> bool \<Rightarrow> jsnum \<Rightarrow> string list" where
  "hoursPart tr ks zeros h =
     (if js_gt h (Num 0) \<or> zeros then
        (if js_eq h (Num 1) then [singular tr (keyOr ks oneHour_key ''1 hour'')]
         else if js_gt h (Num 0) then [plural tr (keyOr ks hours_key ''{{count}} hours'') h]
         else [])
      else [])"

definition minutesPart ::
  "translation option \<Rightarrow> TranslationKeys option \<Rightarrow> bool \<Rightarrow> jsnum \<Rightarrow> jsnum \<Rightarrow> string list" where
  "minutesPart tr ks zeros h m =
     (if js_gt m (Num 0) \<or> (zeros \<and> js_eq h (Num 0)) then
        (if js_eq m (Num 1) then [singular tr (keyOr ks oneMinute_key ''1 minute'')]
         else if js_gt m (Num 0) then [plural tr (keyOr ks minutes_key ''{{count}} minutes'') m]
         else [])
      else [])"

definition secondsPart ::
  "translation option \<Rightarrow> TranslationKeys option \<Rightarrow> bool \<Rightarrow> jsnum \<Rightarrow> jsnum \<Rightarrow> jsnum \<Rightarrow> jsnum
     \<Rightarrow> string list" where
  "secondsPart tr ks zeros threshold h m s =
     (if js_eq h (Num 0) \<and> js_lt m threshold then
        (if js_gt s (Num 0) \<or> zeros then
           (if js_eq s (Num 1) then [singular tr (keyOr ks oneSecond_key ''1 second'')]
            else if js_gt s (Num 0) then [plural tr (keyOr ks seconds_key ''{{count}} seconds'') s]
            else [])
         else [])
      else [])"

definition formatCountdown :: "env \<Rightarrow> target \<Rightarrow> FormatCountdownOptions option \<Rightarrow> string" where
  "formatCountdown e targetDate options =
     (let threshold = orDefault (optional options showSecondsThreshold) (Num 5);
          sep = orDefault (optional options separator) '' '';
          zeros = orDefault (optional options showZeros) False;
          tr = optional options t;
          ks = optional options keys;
          r = calculateTimeRemaining e targetDate (Some \<lparr> timezone = optional options timezone \<rparr>)
      in if isExpired r then availableNowText tr ks
         else
           (let parts = hoursPart tr ks zeros (hours r)
                  @ minutesPart tr ks zeros (hours r) (minutes r)
                  @ secondsPart tr ks zeros threshold (hours r) (minutes r) (seconds r)
            in if length parts = 0 then availableNowText tr ks else join sep parts))"

section \<open>formatCountdownShort\<close>

definition formatCountdownShort ::
  "env \<Rightarrow> target \<Rightarrow> 'a CountdownFormatOptions_scheme option \<Rightarrow> string" where
  "formatCountdownShort e targetDate options =
     (let threshold = orDefault (optional options showSecondsThreshold) (Num 5);
          sep = orDefault (optional options separator) '' '';
          r = calculateTimeRemaining e targetDate (Some \<lparr> timezone = optional options timezone \<rparr>)
      in if isExpired r then ''0m''
         else
           (let parts =
                  (if js_gt (hours r) (Num 0) then [js_toString (hours r) @ ''h''] else [])
                  @ (if js_gt (minutes r) (Num 0) then [js_toString (minutes r) @ ''m''] else [])
                  @ (if js_eq (hours r) (Num 0) \<and> js_lt (minutes r) threshold then
                       (if js_gt (seconds r) (Num 0) then [js_toString (seconds r) @ ''s''] else [])
                     else [])
            in if length parts > 0 then join sep parts else ''0m''))"

section \<open>formatCountdownCompact\<close>

record CompactOptions = CountdownFormatOptions +
  showHours :: "bool option"
  showSeconds :: "bool option"

definition formatCountdownCompact :: "env \<Rightarrow> target \<Rightarrow> CompactOptions option \<Rightarrow> string" where
  "formatCountdownCompact e targetDate options =
     (let hoursShown = orDefault (optional options showHours) True;
          secondsShown = orDefault (optional options showSeconds) True;
          r = calculateTimeRemaining e targetDate (None :: TimezoneOptions option)
      in if isExpired r then (if hoursShown then ''0:00:00'' else ''0:00'')
         else if hoursShown then
           (let h = padStart 2 (CHR ''0'') (js_toString (hours r));
                m = padStart 2 (CHR ''0'') (js_toString (minutes r));
                s = (if secondsShown then padStart 2 (CHR ''0'') (js_toString (seconds r)) else [])
            in if secondsShown then h @ '':'' @ m @ '':'' @ s else h @ '':'' @ m)
         else
           (let totalMinutes = js_add (js_mul (hours r) (Num 60)) (minutes r);
                m = padStart 2 (CHR ''0'') (js_toString totalMinutes);
                s = (if secondsShown then padStart 2 (CHR ''0'') (js_toString (seconds r)) else [])
            in if secondsShown then m @ '':'' @ s else m))"

text \<open>
  The regular expression \<^verbatim>\<open>^\d+:\d{2}(:\d{2})?$\<close>, as a decision procedure: the longest
  run of leading digits is not empty (a colon is no digit, so \<^verbatim>\<open>\d+\<close> must take all of
  it), and what follows is one or two fields made of a colon and two digits.
\<close>

definition isDigit :: "char \<Rightarrow> bool" where
  "isDigit c = (c \<in> set ''0123456789'')"

definition colonField :: "string \<Rightarrow> bool" where
  "colonField r = (length r = 3 \<and> r ! 0 = CHR '':'' \<and> isDigit (r ! 1) \<and> isDigit (r ! 2))"

definition matchesCompactPattern :: "string \<Rightarrow> bool" where
  "matchesCompactPattern s =
     (let lead = takeWhile isDigit s; rest = dropWhile isDigit s
      in lead \<noteq> [] \<and> (colonField rest \<or> (colonField (take 3 rest) \<and> colonField (drop 3 rest))))"

section \<open>useCountdown\<close>

text \<open>
  The hook's first parameter may also be \<^verbatim>\<open>null\<close> or \<^verbatim>\<open>undefined\<close>. A \<^verbatim>\<open>Date\<close> object is
  truthy; a string is truthy unless it is empty.
\<close>

datatype targetInput = Undefined | Null | Given target

fun truthy :: "target \<Rightarrow> bool" where
  "truthy (DateString s) = (s \<noteq> [])"
| "truthy (DateObject d) = True"

text \<open>\<^verbatim>\<open>targetDate || null\<close>.\<close>

fun orNull :: "targetInput \<Rightarrow> target option" where
  "orNull Undefined = None"
| "orNull Null = None"
| "orNull (Given tg) = (if truthy tg then Some tg else None)"

text \<open>The target a test \<^verbatim>\<open>!currentTarget\<close> lets through: \<open>None\<close> when the test is true.\<close>

definition present :: "target option \<Rightarrow> target option" where
  "present ct = (case ct of None \<Rightarrow> None | Some tg \<Rightarrow> if truthy tg then Some tg else None)"

text \<open>
  \<^verbatim>\<open>onExpire\<close> is a callback with an effect outside the hook; it is a function on the
  state \<open>'w\<close> of whatever it acts on, and that state is threaded through the hook's own.

  The declared type of the hook's options has no \<^verbatim>\<open>showHours\<close> and no \<^verbatim>\<open>showSeconds\<close>, but
  the rest object that the hook forwards to \<^verbatim>\<open>formatCountdownCompact\<close> carries every other
  property of the caller's object, and that formatter reads these two. They are the fields
  \<open>rest_showHours\<close> and \<open>rest_showSeconds\<close>, the plain names being fields of
  \<open>CompactOptions\<close> already.
\<close>

record 'w UseCountdownOptions = FormatCountdownOptions +
  interval :: "jsnum option"
  autoStart :: "bool option"
  onExpire :: "('w \<Rightarrow> 'w) option"
  rest_showHours :: "bool option"
  rest_showSeconds :: "bool option"

record 'w HookState =
  currentTarget :: "target option"
  isActive :: bool
  timeRemaining :: TimeRemaining
  world :: 'w

record UseCountdownReturn =
  returned_timeRemaining :: TimeRemaining
  formatted :: string
  short :: string
  compact :: string
  returned_isActive :: bool

definition expiredSentinel :: TimeRemaining where
  "expiredSentinel =
     \<lparr> hours = Num 0, minutes = Num 0, seconds = Num 0, totalSeconds = Num 0, isExpired = True \<rparr>"

text \<open>
  \<^verbatim>\<open>formatOptions\<close>: the rest of \<^verbatim>\<open>options || {}\<close> once \<^verbatim>\<open>interval\<close>, \<^verbatim>\<open>autoStart\<close> and
  \<^verbatim>\<open>onExpire\<close> are taken out; always an object.
\<close>

definition formatOptionsOf :: "'w UseCountdownOptions option \<Rightarrow> FormatCountdownOptions" where
  "formatOptionsOf options =
     \<lparr> timezone = optional options timezone,
       showSecondsThreshold = optional options showSecondsThreshold,
       separator = optional options separator,
       showZeros = optional options showZeros,
       t = optional options t,
       keys = optional options keys \<rparr>"

text \<open>
  \<^verbatim>\<open>formatOptions\<close> as \<^verbatim>\<open>formatCountdownCompact\<close> reads it: the same rest object, with the
  \<^verbatim>\<open>showHours\<close> and \<^verbatim>\<open>showSeconds\<close> the caller's object has.
\<close>

definition compactOptionsOf :: "'w UseCountdownOptions option \<Rightarrow> CompactOptions" where
  "compactOptionsOf options =
     \<lparr> timezone = optional options timezone,
       showSecondsThreshold = optional options showSecondsThreshold,
       separator = optional options separator,
       showZeros = optional options showZeros,
       showHours = optional options rest_showHours,
       showSeconds = optional options rest_showSeconds \<rparr>"

text \<open>The three \<^verbatim>\<open>useState\<close> initialisers, at the first render.\<close>

definition useCountdown_init ::
  "env \<Rightarrow> targetInput \<Rightarrow> 'w UseCountdownOptions option \<Rightarrow> 'w \<Rightarrow> 'w HookState" where
  "useCountdown_init e targetDate options w =
     (let formatOptions = formatOptionsOf options;
          target0 = orNull targetDate
      in \<lparr> currentTarget = target0,
           isActive = orDefault (optional options autoStart) True,
           timeRemaining =
             (case present target0 of
                None \<Rightarrow> expiredSentinel
              | Some tg \<Rightarrow> calculateTimeRemaining e tg (Some \<lparr> timezone = timezone formatOptions \<rparr>)),
           world = w \<rparr>)"

definition updateCountdown ::
  "env \<Rightarrow> 'w UseCountdownOptions option \<Rightarrow> 'w HookState \<Rightarrow> 'w HookState" where
  "updateCountdown e options st =
     (case present (currentTarget st) of
        None \<Rightarrow> st\<lparr> timeRemaining := expiredSentinel \<rparr>
      | Some tg \<Rightarrow>
          (let remaining =
                 calculateTimeRemaining e tg (Some \<lparr> timezone = timezone (formatOptionsOf options) \<rparr>);
               st' = st\<lparr> timeRemaining := remaining \<rparr>
           in if isExpired remaining then
                (case optional options onExpire of
                   Some callback \<Rightarrow> st'\<lparr> world := callback (world st') \<rparr>
                 | None \<Rightarrow> st')
              else st'))"

text \<open>
  One firing of the interval of the first effect. The effect installs the interval only
  when \<^verbatim>\<open>isActive\<close> holds and \<^verbatim>\<open>currentTarget\<close> is set, so a tick is no step otherwise.
  The clock is read anew at each tick: a run of ticks takes one environment per tick.
\<close>

definition tick :: "env \<Rightarrow> 'w UseCountdownOptions option \<Rightarrow> 'w HookState \<Rightarrow> 'w HookState" where
  "tick e options st =
     (if isActive st then
        (case present (currentTarget st) of
           None \<Rightarrow> st
         | Some tg \<Rightarrow> updateCountdown e options st)
      else st)"

fun ticks :: "env list \<Rightarrow> 'w UseCountdownOptions option \<Rightarrow> 'w HookState \<Rightarrow> 'w HookState" where
  "ticks [] options st = st"
| "ticks (e # es) options st = ticks es options (tick e options st)"

text \<open>
  The second effect, run after the first render and when \<^verbatim>\<open>targetDate\<close> changes. The
  \<^verbatim>\<open>updateCountdown\<close> it calls is the closure of the render that scheduled the effect, so
  it still sees the \<^verbatim>\<open>currentTarget\<close> of that render.
\<close>

definition targetEffect ::
  "env \<Rightarrow> targetInput \<Rightarrow> 'w UseCountdownOptions option \<Rightarrow> 'w HookState \<Rightarrow> 'w HookState" where
  "targetEffect e targetDate options st =
     (case targetDate of
        Undefined \<Rightarrow> st
      | _ \<Rightarrow> (updateCountdown e options st)\<lparr> currentTarget := orNull targetDate \<rparr>)"

text \<open>What a render returns, the control functions apart.\<close>

definition useCountdown_return ::
  "env \<Rightarrow> 'w UseCountdownOptions option \<Rightarrow> 'w HookState \<Rightarrow> UseCountdownReturn" where
  "useCountdown_return e options st =
     (let formatOptions = formatOptionsOf options
      in \<lparr> returned_timeRemaining = timeRemaining st,
           formatted =
             (case present (currentTarget st) of
                Some tg \<Rightarrow> formatCountdown e tg (Some formatOptions)
              | None \<Rightarrow> []),
           short =
             (case present (currentTarget st) of
                Some tg \<Rightarrow> formatCountdownShort e tg (Some formatOptions)
              | None \<Rightarrow> []),
           compact =
             (case present (currentTarget st) of
                Some tg \<Rightarrow> formatCountdownCompact e tg (Some (compactOptionsOf options))
              | None \<Rightarrow> []),
           returned_isActive = isActive st \<rparr>)"

section \<open>The decomposition invariant of the specification\<close>

text \<open>
  The invariant as the specification writes it, evaluated as the JavaScript expression
  \<^verbatim>\<open>hours*3600 + minutes*60 + seconds == totalSeconds\<close> on a result.
\<close>

definition decompositionHolds :: "TimeRemaining \<Rightarrow> bool" where
  "decompositionHolds r =
     js_eq (js_add (js_add (js_mul (hours r) (Num 3600)) (js_mul (minutes r) (Num 60))) (seconds r))
       (totalSeconds r)"

section \<open>Properties of calculateTimeRemaining\<close>

lemma difference_valid:
  "getTime e targetDate = Num T \<Longrightarrow> difference e targetDate = Num (max 0 (T - clock e))"
  by (simp add: difference_def)

lemma difference_invalid:
  "getTime e targetDate = NaN \<Longrightarrow> difference e targetDate = NaN"
  by (simp add: difference_def)

text \<open>The result for a target with a time value, in closed form.\<close>

lemma calculateTimeRemaining_valid:
  assumes "getTime e targetDate = Num T"
  shows "calculateTimeRemaining e targetDate options =
    (let n = max 0 (T - clock e) div 1000
     in \<lparr> hours = Num (n div 3600), minutes = Num (n mod 3600 div 60), seconds = Num (n mod 60),
          totalSeconds = Num n, isExpired = (n = 0) \<rparr>)"
proof -
  define n where "n = max 0 (T - clock e) div 1000"
  have n0: "0 \<le> n"
    by (simp add: n_def pos_imp_zdiv_nonneg_iff)
  have s: "sgn n * (\<bar>n\<bar> mod 3600) = n mod 3600" "sgn n * (\<bar>n\<bar> mod 60) = n mod 60"
    using n0 by (cases "n = 0"; simp)+
  have "n \<le> 0 \<longleftrightarrow> n = 0"
    using n0 by arith
  then show ?thesis
    using s by (simp add: calculateTimeRemaining_def difference_valid [OF assms] Let_def n_def [symmetric])
qed

text \<open>The result for an invalid date: \<^verbatim>\<open>NaN\<close> goes through every operation, and
  \<^verbatim>\<open>NaN <= 0\<close> is false.\<close>

lemma calculateTimeRemaining_invalid:
  assumes "getTime e targetDate = NaN"
  shows "calculateTimeRemaining e targetDate options =
    \<lparr> hours = NaN, minutes = NaN, seconds = NaN, totalSeconds = NaN, isExpired = False \<rparr>"
  by (simp add: calculateTimeRemaining_def difference_invalid [OF assms])

lemma decompose_seconds:
  fixes n :: int
  shows "n div 3600 * 3600 + n mod 3600 div 60 * 60 + n mod 60 = n"
proof -
  have "n mod 3600 mod 60 = n mod 60"
    by (rule mod_mod_cancel) simp
  moreover have "n mod 3600 div 60 * 60 + n mod 3600 mod 60 = n mod 3600"
    by (rule div_mult_mod_eq)
  moreover have "n div 3600 * 3600 + n mod 3600 = n"
    by (rule div_mult_mod_eq)
  ultimately show ?thesis by linarith
qed

lemma minutes_range:
  fixes n :: int
  shows "0 \<le> n mod 3600 div 60 \<and> n mod 3600 div 60 \<le> 59"
proof -
  have a: "0 \<le> n mod 3600" "n mod 3600 < 3600" by simp_all
  have b: "n mod 3600 div 60 * 60 + n mod 3600 mod 60 = n mod 3600"
    by (rule div_mult_mod_eq)
  have c: "0 \<le> n mod 3600 mod 60" "n mod 3600 mod 60 < 60" by simp_all
  show ?thesis using a b c by linarith
qed

text \<open>
  Claim C1. \<open>isExpired\<close> is the test \<^verbatim>\<open>totalSeconds <= 0\<close>, for every target. For a target
  with a time value \<open>T\<close>, the difference is \<open>max 0 (T - now)\<close>, so neither it nor
  \<open>totalSeconds\<close> is ever negative, and \<open>isExpired\<close> holds exactly when \<open>totalSeconds\<close> is
  zero; when \<open>T \<le> now\<close> the difference is clamped to zero, \<open>totalSeconds\<close> is zero and
  \<open>isExpired\<close> is true.
\<close>

theorem calculateTimeRemaining_past_target_expired:
  "(isExpired (calculateTimeRemaining e targetDate options)
      \<longleftrightarrow> js_le (totalSeconds (calculateTimeRemaining e targetDate options)) (Num 0))
   \<and> (\<forall>T. getTime e targetDate = Num T \<longrightarrow>
         difference e targetDate = Num (max 0 (T - clock e))
       \<and> (\<exists>d n. difference e targetDate = Num d \<and> 0 \<le> d
            \<and> totalSeconds (calculateTimeRemaining e targetDate options) = Num n \<and> 0 \<le> n)
       \<and> (isExpired (calculateTimeRemaining e targetDate options)
            \<longleftrightarrow> totalSeconds (calculateTimeRemaining e targetDate options) = Num 0)
       \<and> (T \<le> clock e \<longrightarrow>
            difference e targetDate = Num 0
          \<and> totalSeconds (calculateTimeRemaining e targetDate options) = Num 0
          \<and> isExpired (calculateTimeRemaining e targetDate options)))"
proof (intro conjI allI impI)
  show "isExpired (calculateTimeRemaining e targetDate options)
      \<longleftrightarrow> js_le (totalSeconds (calculateTimeRemaining e targetDate options)) (Num 0)"
    by (simp add: calculateTimeRemaining_def Let_def)
next
  fix T assume v: "getTime e targetDate = Num T"
  show "difference e targetDate = Num (max 0 (T - clock e))"
    by (rule difference_valid [OF v])
  show "\<exists>d n. difference e targetDate = Num d \<and> 0 \<le> d
            \<and> totalSeconds (calculateTimeRemaining e targetDate options) = Num n \<and> 0 \<le> n"
    by (simp add: calculateTimeRemaining_valid [OF v] difference_valid [OF v] Let_def
        pos_imp_zdiv_nonneg_iff)
  show "isExpired (calculateTimeRemaining e targetDate options)
            \<longleftrightarrow> totalSeconds (calculateTimeRemaining e targetDate options) = Num 0"
    by (simp add: calculateTimeRemaining_valid [OF v] Let_def)
next
  fix T assume v: "getTime e targetDate = Num T" and le: "T \<le> clock e"
  then have z: "max 0 (T - clock e) = 0" by simp
  show "difference e targetDate = Num 0"
    by (simp add: difference_valid [OF v] z)
  show "totalSeconds (calculateTimeRemaining e targetDate options) = Num 0"
    by (simp add: calculateTimeRemaining_valid [OF v] z)
  show "isExpired (calculateTimeRemaining e targetDate options)"
    by (simp add: calculateTimeRemaining_valid [OF v] z)
qed

theorem calculateTimeRemaining_past_target_expired_witness:
  "getTime \<lparr> clock = 10000, dateParse = (\<lambda>s. NaN) \<rparr> (DateObject (Num 4000)) = Num 4000
   \<and> (4000::int) \<le> clock \<lparr> clock = 10000, dateParse = (\<lambda>s. NaN) \<rparr>
   \<and> totalSeconds (calculateTimeRemaining \<lparr> clock = 10000, dateParse = (\<lambda>s. NaN) \<rparr>
        (DateObject (Num 4000)) (None :: TimezoneOptions option)) = Num 0
   \<and> isExpired (calculateTimeRemaining \<lparr> clock = 10000, dateParse = (\<lambda>s. NaN) \<rparr>
        (DateObject (Num 4000)) (None :: TimezoneOptions option))"
  using calculateTimeRemaining_past_target_expired
    [of "\<lparr> clock = 10000, dateParse = (\<lambda>s. NaN) \<rparr>" "DateObject (Num 4000)"
      "None :: TimezoneOptions option"]
  by (simp add: getTime_def)

text \<open>
  Claim C2, as stated, fails for a target that is no valid date: every field of the result
  is \<^verbatim>\<open>NaN\<close>, which is no non-negative integer, and \<^verbatim>\<open>NaN == NaN\<close> is false.
\<close>

theorem calculateTimeRemaining_decomposition_fails_on_invalid_date:
  "\<not> decompositionHolds
       (calculateTimeRemaining \<lparr> clock = 0, dateParse = (\<lambda>s. NaN) \<rparr>
          (DateString ''not a date'') (None :: TimezoneOptions option))
   \<and> hours (calculateTimeRemaining \<lparr> clock = 0, dateParse = (\<lambda>s. NaN) \<rparr>
          (DateString ''not a date'') (None :: TimezoneOptions option)) = NaN
   \<and> totalSeconds (calculateTimeRemaining \<lparr> clock = 0, dateParse = (\<lambda>s. NaN) \<rparr>
          (DateString ''not a date'') (None :: TimezoneOptions option)) = NaN"
  by (simp add: decompositionHolds_def calculateTimeRemaining_def difference_def getTime_def)

text \<open>
  Claim C2, amended: for every target with a time value (a valid \<^verbatim>\<open>Date\<close> or a string the
  engine parses), the result satisfies \<^verbatim>\<open>hours*3600 + minutes*60 + seconds == totalSeconds\<close>;
  its four numbers are integers, \<open>hours\<close> and \<open>totalSeconds\<close> non-negative, \<open>minutes\<close> and
  \<open>seconds\<close> in \<open>[0, 59]\<close>, and the three fields are the decomposition of \<open>totalSeconds\<close>
  (\<open>totalSeconds div 3600\<close>, \<open>totalSeconds mod 3600 div 60\<close>, \<open>totalSeconds mod 60\<close>).
\<close>

theorem calculateTimeRemaining_decomposition:
  "getTime e targetDate = Num T \<Longrightarrow>
     decompositionHolds (calculateTimeRemaining e targetDate options)
   \<and> (\<exists>h m s n.
         hours (calculateTimeRemaining e targetDate options) = Num h
       \<and> minutes (calculateTimeRemaining e targetDate options) = Num m
       \<and> seconds (calculateTimeRemaining e targetDate options) = Num s
       \<and> totalSeconds (calculateTimeRemaining e targetDate options) = Num n
       \<and> h * 3600 + m * 60 + s = n
       \<and> h = n div 3600 \<and> m = n mod 3600 div 60 \<and> s = n mod 60
       \<and> 0 \<le> h \<and> 0 \<le> n \<and> 0 \<le> m \<and> m \<le> 59 \<and> 0 \<le> s \<and> s \<le> 59)"
proof -
  assume v: "getTime e targetDate = Num T"
  define n where "n = max 0 (T - clock e) div 1000"
  have n0: "0 \<le> n"
    by (simp add: n_def pos_imp_zdiv_nonneg_iff)
  have r: "calculateTimeRemaining e targetDate options =
      \<lparr> hours = Num (n div 3600), minutes = Num (n mod 3600 div 60), seconds = Num (n mod 60),
        totalSeconds = Num n, isExpired = (n = 0) \<rparr>"
    by (simp add: calculateTimeRemaining_valid [OF v] Let_def n_def)
  have h0: "0 \<le> n div 3600"
    using n0 by (simp add: pos_imp_zdiv_nonneg_iff)
  have s0: "0 \<le> n mod 60" "n mod 60 \<le> 59"
    by simp_all
  have d: "n div 3600 * 3600 + n mod 3600 div 60 * 60 + n mod 60 = n"
    by (rule decompose_seconds)
  have "decompositionHolds (calculateTimeRemaining e targetDate options)"
    unfolding r decompositionHolds_def using d by simp
  moreover have "hours (calculateTimeRemaining e targetDate options) = Num (n div 3600)"
    "minutes (calculateTimeRemaining e targetDate options) = Num (n mod 3600 div 60)"
    "seconds (calculateTimeRemaining e targetDate options) = Num (n mod 60)"
    "totalSeconds (calculateTimeRemaining e targetDate options) = Num n"
    unfolding r by simp_all
  ultimately show ?thesis
    using d n0 h0 s0 minutes_range [of n] by blast
qed

theorem calculateTimeRemaining_decomposition_witness:
  "getTime \<lparr> clock = 1000, dateParse = (\<lambda>s. NaN) \<rparr> (DateObject (Num 3724500)) = Num 3724500
   \<and> calculateTimeRemaining \<lparr> clock = 1000, dateParse = (\<lambda>s. NaN) \<rparr>
        (DateObject (Num 3724500)) (None :: TimezoneOptions option)
      = \<lparr> hours = Num 1, minutes = Num 2, seconds = Num 3, totalSeconds = Num 3723, isExpired = False \<rparr>
   \<and> decompositionHolds (calculateTimeRemaining \<lparr> clock = 1000, dateParse = (\<lambda>s. NaN) \<rparr>
        (DateObject (Num 3724500)) (None :: TimezoneOptions option))"
  using calculateTimeRemaining_decomposition
    [of "\<lparr> clock = 1000, dateParse = (\<lambda>s. NaN) \<rparr>" "DateObject (Num 3724500)" 3724500
      "None :: TimezoneOptions option"]
  by (simp add: getTime_def calculateTimeRemaining_def difference_def)

text \<open>
  Claim C9. The result does not depend on the options: any two values of the timezone
  option, absent or not, give the same result at the same instant. More, the result is a
  function of the clock reading and of the target's time value alone.
\<close>

theorem calculateTimeRemaining_ignores_timezone:
  "calculateTimeRemaining e targetDate options = calculateTimeRemaining e targetDate options'
   \<and> (clock e = clock e' \<and> getTime e targetDate = getTime e' targetDate' \<longrightarrow>
        calculateTimeRemaining e targetDate options = calculateTimeRemaining e' targetDate' options')"
  by (simp add: calculateTimeRemaining_def difference_def)

theorem calculateTimeRemaining_ignores_timezone_witness:
  "clock \<lparr> clock = 1000, dateParse = (\<lambda>s. Num 91000) \<rparr> = clock \<lparr> clock = 1000, dateParse = (\<lambda>s. NaN) \<rparr>
   \<and> getTime \<lparr> clock = 1000, dateParse = (\<lambda>s. Num 91000) \<rparr> (DateString ''2030-01-01'')
     = getTime \<lparr> clock = 1000, dateParse = (\<lambda>s. NaN) \<rparr> (DateObject (Num 91000))
   \<and> calculateTimeRemaining \<lparr> clock = 1000, dateParse = (\<lambda>s. Num 91000) \<rparr> (DateString ''2030-01-01'')
       (Some \<lparr> timezone = Some ''Europe/Istanbul'' \<rparr>)
     = calculateTimeRemaining \<lparr> clock = 1000, dateParse = (\<lambda>s. Num 91000) \<rparr> (DateString ''2030-01-01'')
       (None :: TimezoneOptions option)
   \<and> calculateTimeRemaining \<lparr> clock = 1000, dateParse = (\<lambda>s. Num 91000) \<rparr> (DateString ''2030-01-01'')
       (Some \<lparr> timezone = Some ''Europe/Istanbul'' \<rparr>)
     = calculateTimeRemaining \<lparr> clock = 1000, dateParse = (\<lambda>s. NaN) \<rparr> (DateObject (Num 91000))
       (None :: TimezoneOptions option)"
proof -
  have h: "clock \<lparr> clock = 1000, dateParse = (\<lambda>s. Num 91000) \<rparr> = clock \<lparr> clock = 1000, dateParse = (\<lambda>s. NaN) \<rparr>
   \<and> getTime \<lparr> clock = 1000, dateParse = (\<lambda>s. Num 91000) \<rparr> (DateString ''2030-01-01'')
     = getTime \<lparr> clock = 1000, dateParse = (\<lambda>s. NaN) \<rparr> (DateObject (Num 91000))"
    by (simp add: getTime_def)
  note th = calculateTimeRemaining_ignores_timezone
      [where e = "\<lparr> clock = 1000, dateParse = (\<lambda>s. Num 91000) \<rparr>"
      and targetDate = "DateString ''2030-01-01''"
      and options = "Some \<lparr> timezone = Some ''Europe/Istanbul'' \<rparr>"
      and options' = "None :: TimezoneOptions option"
      and e' = "\<lparr> clock = 1000, dateParse = (\<lambda>s. NaN) \<rparr>"
      and targetDate' = "DateObject (Num 91000)"]
  from th have a: "calculateTimeRemaining \<lparr> clock = 1000, dateParse = (\<lambda>s. Num 91000) \<rparr> (DateString ''2030-01-01'')
       (Some \<lparr> timezone = Some ''Europe/Istanbul'' \<rparr>)
     = calculateTimeRemaining \<lparr> clock = 1000, dateParse = (\<lambda>s. Num 91000) \<rparr> (DateString ''2030-01-01'')
       (None :: TimezoneOptions option)"
    by (rule conjunct1)
  from th h have b: "calculateTimeRemaining \<lparr> clock = 1000, dateParse = (\<lambda>s. Num 91000) \<rparr> (DateString ''2030-01-01'')
       (Some \<lparr> timezone = Some ''Europe/Istanbul'' \<rparr>)
     = calculateTimeRemaining \<lparr> clock = 1000, dateParse = (\<lambda>s. NaN) \<rparr> (DateObject (Num 91000))
       (None :: TimezoneOptions option)"
    by (rule conjunct2 [THEN mp])
  from h a b show ?thesis
    by (intro conjI) (rule conjunct1, assumption, rule conjunct2, assumption, assumption, assumption)
qed

section \<open>Properties of the formatters\<close>

lemma digitsOf_one_digit: "n < 10 \<Longrightarrow> digitsOf n = [digitChar n]"
  by (simp add: digitsOf.simps [of n])

lemma digitsOf_two_digits:
  "10 \<le> n \<Longrightarrow> n < 100 \<Longrightarrow> digitsOf n = [digitChar (n div 10), digitChar (n mod 10)]"
  by (simp add: digitsOf.simps [of n] digitsOf_one_digit)

lemma hoursPart_NaN: "hoursPart tr ks zeros NaN = []"
  by (simp add: hoursPart_def)

lemma minutesPart_NaN: "minutesPart tr ks zeros NaN NaN = []"
  by (simp add: minutesPart_def)

lemma secondsPart_NaN: "secondsPart tr ks zeros threshold NaN m s = []"
  by (simp add: secondsPart_def)

lemma calculateTimeRemaining_past:
  assumes "getTime e targetDate = Num T" and "T \<le> clock e"
  shows "calculateTimeRemaining e targetDate options = expiredSentinel"
proof -
  from assms(2) have "max 0 (T - clock e) = 0" by simp
  then show ?thesis
    by (simp add: calculateTimeRemaining_valid [OF assms(1)] expiredSentinel_def)
qed

text \<open>
  Claim C6. For a target whose time value is not after the clock, the three formatters
  return their sentinel from the branch on \<open>isExpired\<close>: \<open>formatCountdown\<close> the key
  \<^verbatim>\<open>keys?.availableNow || 'Available now'\<close>, passed through the translation function when there
  is one (so \<^verbatim>\<open>"Available now"\<close> with no options); \<open>formatCountdownShort\<close> \<^verbatim>\<open>"0m"\<close>;
  \<open>formatCountdownCompact\<close> \<^verbatim>\<open>"0:00:00"\<close> when hours are shown and \<^verbatim>\<open>"0:00"\<close> when not.
\<close>

theorem formatters_expired_sentinel:
  "getTime e targetDate = Num T \<Longrightarrow> T \<le> clock e \<Longrightarrow>
     formatCountdown e targetDate options =
       (case optional options t of
          Some translate \<Rightarrow> translate (keyOr (optional options keys) availableNow_key ''Available now'') None
        | None \<Rightarrow> keyOr (optional options keys) availableNow_key ''Available now'')
   \<and> formatCountdown e targetDate None = ''Available now''
   \<and> formatCountdownShort e targetDate shortOptions = ''0m''
   \<and> formatCountdownCompact e targetDate compactOptions =
       (if orDefault (optional compactOptions showHours) True then ''0:00:00'' else ''0:00'')
   \<and> formatCountdownCompact e targetDate None = ''0:00:00''"
proof -
  assume v: "getTime e targetDate = Num T" and le: "T \<le> clock e"
  note r = calculateTimeRemaining_past [OF v le]
  have x: "isExpired expiredSentinel" by (simp add: expiredSentinel_def)
  have "formatCountdown e targetDate options =
       (case optional options t of
          Some translate \<Rightarrow> translate (keyOr (optional options keys) availableNow_key ''Available now'') None
        | None \<Rightarrow> keyOr (optional options keys) availableNow_key ''Available now'')"
    by (simp add: formatCountdown_def r x Let_def availableNowText_def singular_def)
  moreover have "formatCountdown e targetDate None = ''Available now''"
    by (simp add: formatCountdown_def r x Let_def availableNowText_def singular_def keyOr_def
        optional_def)
  moreover have "formatCountdownShort e targetDate shortOptions = ''0m''"
    by (simp add: formatCountdownShort_def r x Let_def)
  moreover have "formatCountdownCompact e targetDate compactOptions =
       (if orDefault (optional compactOptions showHours) True then ''0:00:00'' else ''0:00'')"
    by (simp add: formatCountdownCompact_def r x Let_def)
  moreover have "formatCountdownCompact e targetDate None = ''0:00:00''"
    by (simp add: formatCountdownCompact_def r x Let_def optional_def orDefault_def)
  ultimately show ?thesis by blast
qed

theorem formatters_expired_sentinel_witness:
  "getTime \<lparr> clock = 10000, dateParse = (\<lambda>s. Num 4000) \<rparr> (DateString ''1970-01-01T00:00:04Z'') = Num 4000
   \<and> (4000::int) \<le> clock \<lparr> clock = 10000, dateParse = (\<lambda>s. Num 4000) \<rparr>
   \<and> formatCountdown \<lparr> clock = 10000, dateParse = (\<lambda>s. Num 4000) \<rparr>
        (DateString ''1970-01-01T00:00:04Z'') None = ''Available now''
   \<and> formatCountdownShort \<lparr> clock = 10000, dateParse = (\<lambda>s. Num 4000) \<rparr>
        (DateString ''1970-01-01T00:00:04Z'') (None :: CountdownFormatOptions option) = ''0m''
   \<and> formatCountdownCompact \<lparr> clock = 10000, dateParse = (\<lambda>s. Num 4000) \<rparr>
        (DateString ''1970-01-01T00:00:04Z'') None = ''0:00:00''"
proof -
  have h1: "getTime \<lparr> clock = 10000, dateParse = (\<lambda>s. Num 4000) \<rparr> (DateString ''1970-01-01T00:00:04Z'') = Num 4000"
    by (simp add: getTime_def)
  have h2: "(4000::int) \<le> clock \<lparr> clock = 10000, dateParse = (\<lambda>s. Num 4000) \<rparr>"
    by simp
  from formatters_expired_sentinel [OF h1 h2, of None "None :: CountdownFormatOptions option" None] h1 h2
  show ?thesis by blast
qed

text \<open>
  Claim C8, as stated, fails: for a string the engine cannot parse nothing is raised, but
  the result is not the expired, zero one. \<open>isExpired\<close> is false, \<open>totalSeconds\<close> is
  \<^verbatim>\<open>NaN\<close>, and the compact formatter prints \<^verbatim>\<open>NaN\<close> fields.
\<close>

theorem invalid_date_not_expired:
  "dateParse \<lparr> clock = 0, dateParse = (\<lambda>s. NaN) \<rparr> ''not a date'' = NaN
   \<and> \<not> isExpired (calculateTimeRemaining \<lparr> clock = 0, dateParse = (\<lambda>s. NaN) \<rparr>
          (DateString ''not a date'') (None :: TimezoneOptions option))
   \<and> totalSeconds (calculateTimeRemaining \<lparr> clock = 0, dateParse = (\<lambda>s. NaN) \<rparr>
          (DateString ''not a date'') (None :: TimezoneOptions option)) \<noteq> Num 0
   \<and> formatCountdownCompact \<lparr> clock = 0, dateParse = (\<lambda>s. NaN) \<rparr>
          (DateString ''not a date'') None = ''NaN:NaN:NaN''"
  by (simp add: calculateTimeRemaining_def difference_def getTime_def formatCountdownCompact_def
      optional_def orDefault_def padStart_def)

text \<open>
  Claim C8, amended: for every target with no time value (an unparseable string, an invalid
  \<^verbatim>\<open>Date\<close>) the functions return normally; \<open>calculateTimeRemaining\<close> returns \<^verbatim>\<open>NaN\<close> in its four
  numbers and \<open>isExpired = false\<close>; \<open>formatCountdown\<close> and \<open>formatCountdownShort\<close> still return
  their sentinels (the available-now text, \<^verbatim>\<open>"0m"\<close>), through the fallback for an empty list
  of parts; \<open>formatCountdownCompact\<close> returns \<^verbatim>\<open>NaN\<close> in each field it shows.
\<close>

theorem invalid_date_result:
  "getTime e targetDate = NaN \<Longrightarrow>
     calculateTimeRemaining e targetDate options =
       \<lparr> hours = NaN, minutes = NaN, seconds = NaN, totalSeconds = NaN, isExpired = False \<rparr>
   \<and> formatCountdown e targetDate verboseOptions =
       availableNowText (optional verboseOptions t) (optional verboseOptions keys)
   \<and> formatCountdown e targetDate None = ''Available now''
   \<and> formatCountdownShort e targetDate shortOptions = ''0m''
   \<and> formatCountdownCompact e targetDate compactOptions =
       (if orDefault (optional compactOptions showHours) True then
          (if orDefault (optional compactOptions showSeconds) True then ''NaN:NaN:NaN'' else ''NaN:NaN'')
        else
          (if orDefault (optional compactOptions showSeconds) True then ''NaN:NaN'' else ''NaN''))"
proof -
  assume v: "getTime e targetDate = NaN"
  note r = calculateTimeRemaining_invalid [OF v]
  have "formatCountdown e targetDate verboseOptions =
       availableNowText (optional verboseOptions t) (optional verboseOptions keys)"
    by (simp add: formatCountdown_def r Let_def hoursPart_NaN minutesPart_NaN secondsPart_NaN)
  moreover have "formatCountdown e targetDate None = ''Available now''"
    by (simp add: formatCountdown_def r Let_def hoursPart_NaN minutesPart_NaN secondsPart_NaN
        availableNowText_def singular_def keyOr_def optional_def)
  moreover have "formatCountdownShort e targetDate shortOptions = ''0m''"
    by (simp add: formatCountdownShort_def r Let_def)
  moreover have "formatCountdownCompact e targetDate compactOptions =
       (if orDefault (optional compactOptions showHours) True then
          (if orDefault (optional compactOptions showSeconds) True then ''NaN:NaN:NaN'' else ''NaN:NaN'')
        else
          (if orDefault (optional compactOptions showSeconds) True then ''NaN:NaN'' else ''NaN''))"
    by (simp add: formatCountdownCompact_def r Let_def padStart_def)
  ultimately show ?thesis using r by blast
qed


theorem invalid_date_result_witness:
  "getTime \<lparr> clock = 0, dateParse = (\<lambda>s. NaN) \<rparr> (DateString ''not a date'') = NaN
   \<and> isExpired (calculateTimeRemaining \<lparr> clock = 0, dateParse = (\<lambda>s. NaN) \<rparr>
          (DateString ''not a date'') (None :: TimezoneOptions option)) = False
   \<and> formatCountdown \<lparr> clock = 0, dateParse = (\<lambda>s. NaN) \<rparr> (DateString ''not a date'') None
        = ''Available now''
   \<and> formatCountdownShort \<lparr> clock = 0, dateParse = (\<lambda>s. NaN) \<rparr> (DateString ''not a date'')
        (None :: CountdownFormatOptions option) = ''0m''"
proof -
  have h: "getTime \<lparr> clock = 0, dateParse = (\<lambda>s. NaN) \<rparr> (DateString ''not a date'') = NaN"
    by (simp add: getTime_def)
  from invalid_date_result [OF h, of "None :: TimezoneOptions option" None "None :: CountdownFormatOptions option" None]
  have "calculateTimeRemaining \<lparr> clock = 0, dateParse = (\<lambda>s. NaN) \<rparr>
          (DateString ''not a date'') (None :: TimezoneOptions option)
        = \<lparr> hours = NaN, minutes = NaN, seconds = NaN, totalSeconds = NaN, isExpired = False \<rparr>"
    and "formatCountdown \<lparr> clock = 0, dateParse = (\<lambda>s. NaN) \<rparr> (DateString ''not a date'') None
        = ''Available now''"
    and "formatCountdownShort \<lparr> clock = 0, dateParse = (\<lambda>s. NaN) \<rparr> (DateString ''not a date'')
        (None :: CountdownFormatOptions option) = ''0m''"
    by blast+
  with h show ?thesis by simp
qed

lemma calculateTimeRemaining_5h30m:
  assumes "getTime e targetDate = Num (clock e + 19800000)"
  shows "calculateTimeRemaining e targetDate options =
    \<lparr> hours = Num 5, minutes = Num 30, seconds = Num 0, totalSeconds = Num 19800, isExpired = False \<rparr>"
  by (simp add: calculateTimeRemaining_valid [OF assms])

lemma calculateTimeRemaining_4m10s:
  assumes "getTime e targetDate = Num (clock e + 250000)"
  shows "calculateTimeRemaining e targetDate options =
    \<lparr> hours = Num 0, minutes = Num 4, seconds = Num 10, totalSeconds = Num 250, isExpired = False \<rparr>"
  by (simp add: calculateTimeRemaining_valid [OF assms])

text \<open>
  Claim C7. With no options, a target 5 hours 30 minutes after the clock reading is
  formatted as \<^verbatim>\<open>"5 hours 30 minutes"\<close>, \<^verbatim>\<open>"5h 30m"\<close> and \<^verbatim>\<open>"05:30:00"\<close>, and a target 4 minutes
  10 seconds after it has the short format \<^verbatim>\<open>"4m 10s"\<close>, whatever the clock reads.
\<close>

theorem formatters_default_examples:
  "(getTime e targetDate = Num (clock e + 19800000) \<longrightarrow>
      formatCountdown e targetDate None = ''5 hours 30 minutes''
    \<and> formatCountdownShort e targetDate (None :: CountdownFormatOptions option) = ''5h 30m''
    \<and> formatCountdownCompact e targetDate None = ''05:30:00'')
   \<and> (getTime e targetDate = Num (clock e + 250000) \<longrightarrow>
      formatCountdownShort e targetDate (None :: CountdownFormatOptions option) = ''4m 10s'')"
proof (intro conjI impI)
  assume v: "getTime e targetDate = Num (clock e + 19800000)"
  note r = calculateTimeRemaining_5h30m [OF v]
  show "formatCountdown e targetDate None = ''5 hours 30 minutes''"
    by (simp add: formatCountdown_def r Let_def optional_def orDefault_def hoursPart_def
        minutesPart_def secondsPart_def plural_def keyOr_def digitsOf_one_digit digitsOf_two_digits
        digitChar_def)
  show "formatCountdownShort e targetDate (None :: CountdownFormatOptions option) = ''5h 30m''"
    by (simp add: formatCountdownShort_def r Let_def optional_def orDefault_def
        digitsOf_one_digit digitsOf_two_digits digitChar_def)
  show "formatCountdownCompact e targetDate None = ''05:30:00''"
    by (simp add: formatCountdownCompact_def r Let_def optional_def orDefault_def padStart_def
        digitsOf_one_digit digitsOf_two_digits digitChar_def)
next
  assume v: "getTime e targetDate = Num (clock e + 250000)"
  note r = calculateTimeRemaining_4m10s [OF v]
  show "formatCountdownShort e targetDate (None :: CountdownFormatOptions option) = ''4m 10s''"
    by (simp add: formatCountdownShort_def r Let_def optional_def orDefault_def
        digitsOf_one_digit digitsOf_two_digits digitChar_def)
qed

theorem formatters_default_examples_witness:
  "getTime \<lparr> clock = 1700000000000, dateParse = (\<lambda>s. NaN) \<rparr> (DateObject (Num 1700019800000))
     = Num (clock \<lparr> clock = 1700000000000, dateParse = (\<lambda>s. NaN) \<rparr> + 19800000)
   \<and> formatCountdown \<lparr> clock = 1700000000000, dateParse = (\<lambda>s. NaN) \<rparr>
        (DateObject (Num 1700019800000)) None = ''5 hours 30 minutes''
   \<and> formatCountdownShort \<lparr> clock = 1700000000000, dateParse = (\<lambda>s. NaN) \<rparr>
        (DateObject (Num 1700019800000)) (None :: CountdownFormatOptions option) = ''5h 30m''
   \<and> formatCountdownCompact \<lparr> clock = 1700000000000, dateParse = (\<lambda>s. NaN) \<rparr>
        (DateObject (Num 1700019800000)) None = ''05:30:00''"
  using formatters_default_examples [of "\<lparr> clock = 1700000000000, dateParse = (\<lambda>s. NaN) \<rparr>" "DateObject (Num 1700019800000)"]
  by (simp add: getTime_def)

lemma isDigit_digitChar: "d < 10 \<Longrightarrow> isDigit (digitChar d)"
proof -
  assume "d < 10"
  then have "d \<in> {0, 1, 2, 3, 4, 5, 6, 7, 8, 9}" by auto
  then show ?thesis
    by (auto simp: isDigit_def digitChar_def)
qed

lemma digitsOf_digits: "c \<in> set (digitsOf n) \<Longrightarrow> isDigit c"
proof (induction n rule: digitsOf.induct)
  case (1 n)
  show ?case
  proof (cases "n < 10")
    case True
    with "1.prems" show ?thesis
      by (simp add: digitsOf_one_digit isDigit_digitChar)
  next
    case False
    with "1.prems" have "c \<in> set (digitsOf (n div 10)) \<or> c = digitChar (n mod 10)"
      by (auto simp: digitsOf.simps [of n])
    with False "1.IH" show ?thesis
      by (auto simp: isDigit_digitChar)
  qed
qed

lemma digitsOf_not_empty: "digitsOf n \<noteq> []"
  by (simp add: digitsOf.simps [of n])

lemma padStart_digits:
  "c \<in> set (padStart 2 (CHR ''0'') (digitsOf n)) \<Longrightarrow> isDigit c"
proof -
  assume "c \<in> set (padStart 2 (CHR ''0'') (digitsOf n))"
  then have "c = CHR ''0'' \<or> c \<in> set (digitsOf n)"
    by (auto simp: padStart_def)
  moreover have "isDigit (CHR ''0'')"
    by (simp add: isDigit_def)
  ultimately show ?thesis
    using digitsOf_digits by blast
qed

lemma padStart_length: "2 \<le> length (padStart 2 c s)"
  by (simp add: padStart_def)

lemma padStart_two_digits:
  assumes "n < 100"
  shows "\<exists>a b. padStart 2 (CHR ''0'') (digitsOf n) = [a, b] \<and> isDigit a \<and> isDigit b"
proof (cases "n < 10")
  case True
  then show ?thesis
    by (simp add: digitsOf_one_digit padStart_def isDigit_digitChar) (simp add: isDigit_def)
next
  case False
  with assms show ?thesis
    by (simp add: digitsOf_two_digits padStart_def isDigit_digitChar)
qed

lemma not_isDigit_colon: "\<not> isDigit (CHR '':'')"
  by (simp add: isDigit_def)

lemma matches_two_fields:
  assumes "lead \<noteq> []" and "\<And>c. c \<in> set lead \<Longrightarrow> isDigit c" and "isDigit a" and "isDigit b"
  shows "matchesCompactPattern (lead @ '':'' @ [a, b])"
proof -
  have "takeWhile isDigit (lead @ '':'' @ [a, b]) = lead"
    using assms(2) by (simp add: takeWhile_append2 not_isDigit_colon)
  moreover have "dropWhile isDigit (lead @ '':'' @ [a, b]) = '':'' @ [a, b]"
    using assms(2) by (simp add: dropWhile_append2 not_isDigit_colon)
  ultimately show ?thesis
    using assms(1,3,4) by (simp add: matchesCompactPattern_def colonField_def)
qed

lemma matches_three_fields:
  assumes "lead \<noteq> []" and "\<And>c. c \<in> set lead \<Longrightarrow> isDigit c"
    and "isDigit a" and "isDigit b" and "isDigit x" and "isDigit y"
  shows "matchesCompactPattern (lead @ '':'' @ [a, b] @ '':'' @ [x, y])"
proof -
  have "takeWhile isDigit (lead @ '':'' @ [a, b] @ '':'' @ [x, y]) = lead"
    using assms(2) by (simp add: takeWhile_append2 not_isDigit_colon)
  moreover have "dropWhile isDigit (lead @ '':'' @ [a, b] @ '':'' @ [x, y]) = '':'' @ [a, b] @ '':'' @ [x, y]"
    using assms(2) by (simp add: dropWhile_append2 not_isDigit_colon)
  ultimately show ?thesis
    using assms(1,3,4,5,6) by (simp add: matchesCompactPattern_def colonField_def)
qed

lemma digits_only_no_match:
  assumes "\<And>c. c \<in> set s \<Longrightarrow> isDigit c"
  shows "\<not> matchesCompactPattern s"
proof -
  have d: "dropWhile isDigit s = []"
    using assms by simp
  show ?thesis
    by (simp add: matchesCompactPattern_def colonField_def Let_def d)
qed


text \<open>
  Claim C4, as stated, fails. With \<^verbatim>\<open>showHours: false\<close> and \<^verbatim>\<open>showSeconds: false\<close> the output is
  the total minutes alone, with no colon: \<^verbatim>\<open>"01"\<close> for a target 90 seconds ahead. And a
  target that is no valid date is not expired for the code, and is printed \<^verbatim>\<open>"NaN:NaN:NaN"\<close>.
\<close>

theorem formatCountdownCompact_pattern_fails:
  "\<not> isExpired (calculateTimeRemaining \<lparr> clock = 1000, dateParse = (\<lambda>s. NaN) \<rparr>
        (DateObject (Num 91000)) (None :: TimezoneOptions option))
   \<and> formatCountdownCompact \<lparr> clock = 1000, dateParse = (\<lambda>s. NaN) \<rparr> (DateObject (Num 91000))
        (Some \<lparr> timezone = None, showSecondsThreshold = None, separator = None, showZeros = None,
                showHours = Some False, showSeconds = Some False \<rparr>) = ''01''
   \<and> \<not> matchesCompactPattern
        (formatCountdownCompact \<lparr> clock = 1000, dateParse = (\<lambda>s. NaN) \<rparr> (DateObject (Num 91000))
          (Some \<lparr> timezone = None, showSecondsThreshold = None, separator = None, showZeros = None,
                  showHours = Some False, showSeconds = Some False \<rparr>))
   \<and> \<not> isExpired (calculateTimeRemaining \<lparr> clock = 1000, dateParse = (\<lambda>s. NaN) \<rparr>
        (DateString ''not a date'') (None :: TimezoneOptions option))
   \<and> \<not> matchesCompactPattern
        (formatCountdownCompact \<lparr> clock = 1000, dateParse = (\<lambda>s. NaN) \<rparr>
          (DateString ''not a date'') None)"
proof -
  have r: "calculateTimeRemaining \<lparr> clock = 1000, dateParse = (\<lambda>s. NaN) \<rparr>
        (DateObject (Num 91000)) (None :: TimezoneOptions option)
      = \<lparr> hours = Num 0, minutes = Num 1, seconds = Num 30, totalSeconds = Num 90, isExpired = False \<rparr>"
    by (simp add: calculateTimeRemaining_def difference_def getTime_def)
  have f: "formatCountdownCompact \<lparr> clock = 1000, dateParse = (\<lambda>s. NaN) \<rparr> (DateObject (Num 91000))
        (Some \<lparr> timezone = None, showSecondsThreshold = None, separator = None, showZeros = None,
                showHours = Some False, showSeconds = Some False \<rparr>) = ''01''"
    by (simp add: formatCountdownCompact_def r optional_def orDefault_def padStart_def
        digitsOf_one_digit digitChar_def)
  have p: "\<not> matchesCompactPattern ''01''"
    by (simp add: matchesCompactPattern_def colonField_def isDigit_def)
  have r': "calculateTimeRemaining \<lparr> clock = 1000, dateParse = (\<lambda>s. NaN) \<rparr>
        (DateString ''not a date'') (None :: TimezoneOptions option)
      = \<lparr> hours = NaN, minutes = NaN, seconds = NaN, totalSeconds = NaN, isExpired = False \<rparr>"
    by (simp add: calculateTimeRemaining_def difference_def getTime_def)
  have f': "formatCountdownCompact \<lparr> clock = 1000, dateParse = (\<lambda>s. NaN) \<rparr>
          (DateString ''not a date'') None = ''NaN:NaN:NaN''"
    by (simp add: formatCountdownCompact_def r' optional_def orDefault_def padStart_def)
  have p': "\<not> matchesCompactPattern ''NaN:NaN:NaN''"
    by (simp add: matchesCompactPattern_def colonField_def isDigit_def)
  show ?thesis
    unfolding f f' r r' using p p' by simp
qed


lemma padStart_not_empty: "padStart 2 c s \<noteq> []"
  using padStart_length [of c s] by auto

text \<open>
  Claim C4, amended: for every target with a time value that is not expired, the output is
  \<open>HH:MM:SS\<close>, \<open>HH:MM\<close>, \<open>MM:SS\<close> or \<open>MM\<close> by the two options, every field the decimal
  number padded with zeros to two characters, the fields being \<open>hours\<close>, \<open>minutes\<close> and
  \<open>seconds\<close> when hours are shown and \<open>hours*60 + minutes\<close> and \<open>seconds\<close> when not; and the
  output matches \<^verbatim>\<open>^\d+:\d{2}(:\d{2})?$\<close> exactly when hours or seconds are shown.
\<close>

theorem formatCountdownCompact_shape:
  "getTime e targetDate = Num T \<Longrightarrow>
   \<not> isExpired (calculateTimeRemaining e targetDate (None :: TimezoneOptions option)) \<Longrightarrow>
   (\<exists>h m s.
      hours (calculateTimeRemaining e targetDate (None :: TimezoneOptions option)) = Num h
    \<and> minutes (calculateTimeRemaining e targetDate (None :: TimezoneOptions option)) = Num m
    \<and> seconds (calculateTimeRemaining e targetDate (None :: TimezoneOptions option)) = Num s
    \<and> 0 \<le> h \<and> 0 \<le> m \<and> m \<le> 59 \<and> 0 \<le> s \<and> s \<le> 59
    \<and> formatCountdownCompact e targetDate options =
        (if orDefault (optional options showHours) True then
           (if orDefault (optional options showSeconds) True then
              padStart 2 (CHR ''0'') (digitsOf (nat h)) @ '':''
                @ padStart 2 (CHR ''0'') (digitsOf (nat m)) @ '':''
                @ padStart 2 (CHR ''0'') (digitsOf (nat s))
            else
              padStart 2 (CHR ''0'') (digitsOf (nat h)) @ '':''
                @ padStart 2 (CHR ''0'') (digitsOf (nat m)))
         else
           (if orDefault (optional options showSeconds) True then
              padStart 2 (CHR ''0'') (digitsOf (nat (h * 60 + m))) @ '':''
                @ padStart 2 (CHR ''0'') (digitsOf (nat s))
            else
              padStart 2 (CHR ''0'') (digitsOf (nat (h * 60 + m))))))
   \<and> (matchesCompactPattern (formatCountdownCompact e targetDate options)
        \<longleftrightarrow> orDefault (optional options showHours) True
           \<or> orDefault (optional options showSeconds) True)"
proof -
  assume v: "getTime e targetDate = Num T"
    and ne: "\<not> isExpired (calculateTimeRemaining e targetDate (None :: TimezoneOptions option))"
  define n where "n = max 0 (T - clock e) div 1000"
  define h where "h = n div 3600"
  define m where "m = n mod 3600 div 60"
  define s where "s = n mod 60"
  define P where "P = (\<lambda>i. padStart 2 (CHR ''0'') (digitsOf (nat i)))"
  define hs where "hs = orDefault (optional options showHours) True"
  define ss where "ss = orDefault (optional options showSeconds) True"
  have n0: "0 \<le> n"
    by (simp add: n_def pos_imp_zdiv_nonneg_iff)
  have r: "calculateTimeRemaining e targetDate (None :: TimezoneOptions option) =
      \<lparr> hours = Num h, minutes = Num m, seconds = Num s, totalSeconds = Num n, isExpired = (n = 0) \<rparr>"
    by (simp add: calculateTimeRemaining_valid [OF v] Let_def n_def h_def m_def s_def)
  have h0: "0 \<le> h"
    using n0 by (simp add: h_def pos_imp_zdiv_nonneg_iff)
  have m0: "0 \<le> m" "m \<le> 59"
    using minutes_range [of n] by (simp_all add: m_def)
  have s0: "0 \<le> s" "s \<le> 59"
    by (simp_all add: s_def)
  have hm0: "0 \<le> h * 60 + m"
    using h0 m0 by simp
  have str: "js_toString (Num h) = digitsOf (nat h)" "js_toString (Num m) = digitsOf (nat m)"
    "js_toString (Num s) = digitsOf (nat s)"
    "js_toString (Num (h * 60 + m)) = digitsOf (nat (h * 60 + m))"
    using h0 m0 s0 hm0 by simp_all
  have out: "formatCountdownCompact e targetDate options =
      (if hs then (if ss then P h @ '':'' @ P m @ '':'' @ P s else P h @ '':'' @ P m)
       else (if ss then P (h * 60 + m) @ '':'' @ P s else P (h * 60 + m)))"
    using ne unfolding formatCountdownCompact_def Let_def r hs_def ss_def P_def
    by (simp add: str del: js_toString.simps)
  have dig: "\<And>i c. c \<in> set (P i) \<Longrightarrow> isDigit c"
    unfolding P_def by (rule padStart_digits)
  have nonempty: "\<And>i. P i \<noteq> []"
    unfolding P_def by (rule padStart_not_empty)
  have "nat m < 100" "nat s < 100"
    using m0 s0 by simp_all
  then have "\<exists>a b. P m = [a, b] \<and> isDigit a \<and> isDigit b"
    and "\<exists>x y. P s = [x, y] \<and> isDigit x \<and> isDigit y"
    unfolding P_def by (simp_all only: padStart_two_digits)
  then obtain a b x y where pm: "P m = [a, b]" "isDigit a" "isDigit b"
    and ps: "P s = [x, y]" "isDigit x" "isDigit y"
    by blast
  have m3: "matchesCompactPattern (P h @ '':'' @ P m @ '':'' @ P s)"
    unfolding pm ps using matches_three_fields [OF nonempty dig pm(2,3) ps(2,3)] by simp
  have m2: "matchesCompactPattern (P h @ '':'' @ P m)"
    unfolding pm using matches_two_fields [OF nonempty dig pm(2,3)] by simp
  have m2': "matchesCompactPattern (P (h * 60 + m) @ '':'' @ P s)"
    unfolding ps using matches_two_fields [OF nonempty dig ps(2,3)] by simp
  have m1: "\<not> matchesCompactPattern (P (h * 60 + m))"
    by (rule digits_only_no_match) (rule dig)
  have pat: "matchesCompactPattern (formatCountdownCompact e targetDate options) \<longleftrightarrow> hs \<or> ss"
    unfolding out using m3 m2 m2' m1 by simp
  have fields: "hours (calculateTimeRemaining e targetDate (None :: TimezoneOptions option)) = Num h"
    "minutes (calculateTimeRemaining e targetDate (None :: TimezoneOptions option)) = Num m"
    "seconds (calculateTimeRemaining e targetDate (None :: TimezoneOptions option)) = Num s"
    unfolding r by simp_all
  show ?thesis
    using fields h0 m0 s0 out pat unfolding P_def hs_def ss_def by blast
qed


theorem formatCountdownCompact_shape_witness:
  "getTime \<lparr> clock = 1000, dateParse = (\<lambda>s. NaN) \<rparr> (DateObject (Num 91000)) = Num 91000
   \<and> \<not> isExpired (calculateTimeRemaining \<lparr> clock = 1000, dateParse = (\<lambda>s. NaN) \<rparr>
          (DateObject (Num 91000)) (None :: TimezoneOptions option))
   \<and> matchesCompactPattern
        (formatCountdownCompact \<lparr> clock = 1000, dateParse = (\<lambda>s. NaN) \<rparr> (DateObject (Num 91000))
          (Some \<lparr> timezone = None, showSecondsThreshold = None, separator = None, showZeros = None,
                  showHours = Some False, showSeconds = Some True \<rparr>))"
proof -
  have h1: "getTime \<lparr> clock = 1000, dateParse = (\<lambda>s. NaN) \<rparr> (DateObject (Num 91000)) = Num 91000"
    by (simp add: getTime_def)
  have h2: "\<not> isExpired (calculateTimeRemaining \<lparr> clock = 1000, dateParse = (\<lambda>s. NaN) \<rparr>
          (DateObject (Num 91000)) (None :: TimezoneOptions option))"
    by (simp add: calculateTimeRemaining_def difference_def getTime_def)
  have h3: "orDefault (optional (Some \<lparr> timezone = None, showSecondsThreshold = None, separator = None,
                  showZeros = None, showHours = Some False, showSeconds = Some True \<rparr>) showSeconds) True"
    by (simp add: optional_def orDefault_def)
  from formatCountdownCompact_shape [OF h1 h2] h3
  have "matchesCompactPattern
        (formatCountdownCompact \<lparr> clock = 1000, dateParse = (\<lambda>s. NaN) \<rparr> (DateObject (Num 91000))
          (Some \<lparr> timezone = None, showSecondsThreshold = None, separator = None, showZeros = None,
                  showHours = Some False, showSeconds = Some True \<rparr>))"
    by blast
  with h1 h2 show ?thesis by blast
qed

text \<open>What the three blocks push: a part for a count greater than zero, and never one for
  zero, since the inner tests are \<^verbatim>\<open>=== 1\<close> and \<^verbatim>\<open>> 0\<close> only.\<close>

lemma hoursPart_pushed: "hoursPart tr ks zeros h \<noteq> [] \<longleftrightarrow> js_gt h (Num 0)"
  by (cases h) (auto simp: hoursPart_def)

lemma minutesPart_pushed: "minutesPart tr ks zeros h m \<noteq> [] \<longleftrightarrow> js_gt m (Num 0)"
  by (cases m) (auto simp: minutesPart_def)

lemma secondsPart_pushed:
  "secondsPart tr ks zeros threshold h m s \<noteq> []
     \<longleftrightarrow> js_eq h (Num 0) \<and> js_lt m threshold \<and> js_gt s (Num 0)"
  by (cases s) (auto simp: secondsPart_def)

text \<open>
  Claim C3 against the code. The three blocks test \<^verbatim>\<open>showZeros\<close> in their outer condition,
  but inside they push only for a count equal to one or greater than zero: a part is
  included exactly when its count is positive (and, for the seconds, hours are zero and
  the minutes are under the threshold), whatever \<^verbatim>\<open>showZeros\<close> is. So for a target 90
  seconds ahead and \<^verbatim>\<open>showZeros: true\<close> the result has no hours part, where the claim
  includes one.
\<close>

theorem formatCountdown_showZeros_shows_no_zero:
  "(hoursPart tr ks zeros h \<noteq> [] \<longleftrightarrow> js_gt h (Num 0))
   \<and> (minutesPart tr ks zeros h m \<noteq> [] \<longleftrightarrow> js_gt m (Num 0))
   \<and> (secondsPart tr ks zeros threshold h m s \<noteq> []
        \<longleftrightarrow> js_eq h (Num 0) \<and> js_lt m threshold \<and> js_gt s (Num 0))
   \<and> hoursPart tr ks True (Num 0) = []
   \<and> formatCountdown \<lparr> clock = 1000, dateParse = (\<lambda>s. NaN) \<rparr> (DateObject (Num 91000))
        (Some \<lparr> timezone = None, showSecondsThreshold = None, separator = None,
                showZeros = Some True, t = None, keys = None \<rparr>)
      = ''1 minute 30 seconds''"
proof -
  have r: "calculateTimeRemaining \<lparr> clock = 1000, dateParse = (\<lambda>s. NaN) \<rparr>
        (DateObject (Num 91000)) (Some \<lparr> timezone = None \<rparr>)
      = \<lparr> hours = Num 0, minutes = Num 1, seconds = Num 30, totalSeconds = Num 90, isExpired = False \<rparr>"
    by (simp add: calculateTimeRemaining_def difference_def getTime_def)
  have "formatCountdown \<lparr> clock = 1000, dateParse = (\<lambda>s. NaN) \<rparr> (DateObject (Num 91000))
        (Some \<lparr> timezone = None, showSecondsThreshold = None, separator = None,
                showZeros = Some True, t = None, keys = None \<rparr>)
      = ''1 minute 30 seconds''"
    by (simp add: formatCountdown_def r Let_def optional_def orDefault_def hoursPart_def
        minutesPart_def secondsPart_def plural_def singular_def keyOr_def digitsOf_two_digits
        digitChar_def)
  moreover have "hoursPart tr ks True (Num 0) = []"
    by (simp add: hoursPart_def)
  ultimately show ?thesis
    using hoursPart_pushed [of tr ks zeros h] minutesPart_pushed [of tr ks zeros h m]
      secondsPart_pushed [of tr ks zeros threshold h m s]
    by blast
qed

section \<open>Properties of useCountdown\<close>

lemma updateCountdown_keeps:
  "currentTarget (updateCountdown e options st) = currentTarget st"
  "isActive (updateCountdown e options st) = isActive st"
  by (simp_all add: updateCountdown_def Let_def split: option.splits)

lemma tick_keeps:
  "currentTarget (tick e options st) = currentTarget st"
  "isActive (tick e options st) = isActive st"
  by (simp_all add: tick_def updateCountdown_keeps split: option.splits)

lemma tick_active:
  assumes "isActive st" and "present (currentTarget st) = Some tg"
  shows "timeRemaining (tick e options st) = calculateTimeRemaining e tg (None :: TimezoneOptions option)"
    and "world (tick e options st) =
      (if isExpired (calculateTimeRemaining e tg (None :: TimezoneOptions option)) then
         (case optional options onExpire of Some callback \<Rightarrow> callback (world st) | None \<Rightarrow> world st)
       else world st)"
proof -
  have c: "\<And>o'. calculateTimeRemaining e tg (Some \<lparr> timezone = o' \<rparr>)
      = calculateTimeRemaining e tg (None :: TimezoneOptions option)"
    by (simp add: calculateTimeRemaining_def)
  show "timeRemaining (tick e options st) = calculateTimeRemaining e tg (None :: TimezoneOptions option)"
    using assms by (simp add: tick_def updateCountdown_def Let_def c split: option.splits)
  show "world (tick e options st) =
      (if isExpired (calculateTimeRemaining e tg (None :: TimezoneOptions option)) then
         (case optional options onExpire of Some callback \<Rightarrow> callback (world st) | None \<Rightarrow> world st)
       else world st)"
    using assms by (simp add: tick_def updateCountdown_def Let_def c split: option.splits)
qed

lemma ticks_after_expiry:
  assumes "isActive st" and "present (currentTarget st) = Some tg"
    and "optional options onExpire = Some callback"
    and "\<And>e. e \<in> set es \<Longrightarrow> isExpired (calculateTimeRemaining e tg (None :: TimezoneOptions option))"
  shows "world (ticks es options st) = (callback ^^ length es) (world st)"
  using assms
proof (induction es arbitrary: st)
  case Nil
  then show ?case by simp
next
  case (Cons e es)
  have x: "isExpired (calculateTimeRemaining e tg (None :: TimezoneOptions option))"
    using Cons.prems(4) by simp
  have w: "world (tick e options st) = callback (world st)"
    using tick_active(2) [OF Cons.prems(1,2), of e options] x Cons.prems(3) by simp
  have "world (ticks es options (tick e options st)) = (callback ^^ length es) (world (tick e options st))"
    using Cons.prems by (intro Cons.IH) (simp_all add: tick_keeps)
  then show ?case
    by (simp add: w funpow_swap1)
qed

text \<open>
  Claim C5. A tick of an active countdown with a target publishes the remaining time
  computed from that target at the tick's clock reading, and leaves the target and
  \<open>isActive\<close> as they are; with an \<^verbatim>\<open>onExpire\<close> callback, the tick runs the callback exactly
  when the new remaining time is expired. Nothing records that the callback has run: over
  any run of ticks whose clock readings are not before the target, the callback runs once
  per tick, as many times as there are ticks.
\<close>

theorem tick_fires_onExpire_every_tick:
  "isActive st \<Longrightarrow> present (currentTarget st) = Some tg \<Longrightarrow>
     timeRemaining (tick e options st) = calculateTimeRemaining e tg (None :: TimezoneOptions option)
   \<and> currentTarget (tick e options st) = currentTarget st
   \<and> isActive (tick e options st)
   \<and> (optional options onExpire = Some callback \<longrightarrow>
        world (tick e options st) =
          (if isExpired (calculateTimeRemaining e tg (None :: TimezoneOptions option))
           then callback (world st) else world st))
   \<and> (optional options onExpire = None \<longrightarrow> world (tick e options st) = world st)
   \<and> (optional options onExpire = Some callback
        \<and> (\<forall>e' \<in> set es. \<exists>T. getTime e' tg = Num T \<and> T \<le> clock e') \<longrightarrow>
        world (ticks es options st) = (callback ^^ length es) (world st))"
proof -
  assume a: "isActive st" and p: "present (currentTarget st) = Some tg"
  have "timeRemaining (tick e options st) = calculateTimeRemaining e tg (None :: TimezoneOptions option)"
    by (rule tick_active(1) [OF a p])
  moreover have "currentTarget (tick e options st) = currentTarget st"
    by (rule tick_keeps)
  moreover have "isActive (tick e options st)"
    using a by (simp add: tick_keeps)
  moreover have "optional options onExpire = Some callback \<longrightarrow>
        world (tick e options st) =
          (if isExpired (calculateTimeRemaining e tg (None :: TimezoneOptions option))
           then callback (world st) else world st)"
    by (simp add: tick_active(2) [OF a p])
  moreover have "optional options onExpire = None \<longrightarrow> world (tick e options st) = world st"
    by (simp add: tick_active(2) [OF a p])
  moreover have "optional options onExpire = Some callback
        \<and> (\<forall>e' \<in> set es. \<exists>T. getTime e' tg = Num T \<and> T \<le> clock e') \<longrightarrow>
        world (ticks es options st) = (callback ^^ length es) (world st)"
  proof (intro impI, elim conjE)
    assume cb: "optional options onExpire = Some callback"
      and ex: "\<forall>e' \<in> set es. \<exists>T. getTime e' tg = Num T \<and> T \<le> clock e'"
    have "\<And>e'. e' \<in> set es \<Longrightarrow> isExpired (calculateTimeRemaining e' tg (None :: TimezoneOptions option))"
    proof -
      fix e' assume "e' \<in> set es"
      with ex obtain T where "getTime e' tg = Num T" "T \<le> clock e'" by blast
      then show "isExpired (calculateTimeRemaining e' tg (None :: TimezoneOptions option))"
        by (simp add: calculateTimeRemaining_past expiredSentinel_def)
    qed
    then show "world (ticks es options st) = (callback ^^ length es) (world st)"
      by (rule ticks_after_expiry [OF a p cb])
  qed
  ultimately show ?thesis by blast
qed


theorem tick_fires_onExpire_every_tick_witness:
  "isActive \<lparr> currentTarget = Some (DateObject (Num 5000)), isActive = True,
              timeRemaining = expiredSentinel, world = (0::nat) \<rparr>
   \<and> present (currentTarget \<lparr> currentTarget = Some (DateObject (Num 5000)), isActive = True,
              timeRemaining = expiredSentinel, world = (0::nat) \<rparr>) = Some (DateObject (Num 5000))
   \<and> getTime \<lparr> clock = 6000, dateParse = (\<lambda>s. NaN) \<rparr> (DateObject (Num 5000)) = Num 5000
   \<and> (5000::int) \<le> clock \<lparr> clock = 6000, dateParse = (\<lambda>s. NaN) \<rparr>
   \<and> getTime \<lparr> clock = 7000, dateParse = (\<lambda>s. NaN) \<rparr> (DateObject (Num 5000)) = Num 5000
   \<and> (5000::int) \<le> clock \<lparr> clock = 7000, dateParse = (\<lambda>s. NaN) \<rparr>
   \<and> getTime \<lparr> clock = 8000, dateParse = (\<lambda>s. NaN) \<rparr> (DateObject (Num 5000)) = Num 5000
   \<and> (5000::int) \<le> clock \<lparr> clock = 8000, dateParse = (\<lambda>s. NaN) \<rparr>
   \<and> world (ticks [\<lparr> clock = 6000, dateParse = (\<lambda>s. NaN) \<rparr>, \<lparr> clock = 7000, dateParse = (\<lambda>s. NaN) \<rparr>,
                    \<lparr> clock = 8000, dateParse = (\<lambda>s. NaN) \<rparr>]
        (Some \<lparr> timezone = None, showSecondsThreshold = None, separator = None, showZeros = None,
                t = None, keys = None, interval = None, autoStart = None, onExpire = Some Suc,
                rest_showHours = None, rest_showSeconds = None \<rparr>)
        \<lparr> currentTarget = Some (DateObject (Num 5000)), isActive = True,
          timeRemaining = expiredSentinel, world = (0::nat) \<rparr>) = 3"
proof -
  have h1: "isActive \<lparr> currentTarget = Some (DateObject (Num 5000)), isActive = True,
              timeRemaining = expiredSentinel, world = (0::nat) \<rparr>"
    by simp
  have h2: "present (currentTarget \<lparr> currentTarget = Some (DateObject (Num 5000)), isActive = True,
              timeRemaining = expiredSentinel, world = (0::nat) \<rparr>) = Some (DateObject (Num 5000))"
    by (simp add: present_def)
  have h3: "optional (Some \<lparr> timezone = None, showSecondsThreshold = None, separator = None,
                showZeros = None, t = None, keys = None, interval = None, autoStart = None,
                onExpire = Some Suc, rest_showHours = None, rest_showSeconds = None \<rparr>) onExpire
            = Some Suc"
    by (simp add: optional_def)
  have h4: "\<forall>e' \<in> set [\<lparr> clock = 6000, dateParse = (\<lambda>s. NaN) \<rparr>, \<lparr> clock = 7000, dateParse = (\<lambda>s. NaN) \<rparr>,
                    \<lparr> clock = 8000, dateParse = (\<lambda>s. NaN) \<rparr>].
         \<exists>T. getTime e' (DateObject (Num 5000)) = Num T \<and> T \<le> clock e'"
    by (simp add: getTime_def)
  from tick_fires_onExpire_every_tick [OF h1 h2] h3 h4
  have "world (ticks [\<lparr> clock = 6000, dateParse = (\<lambda>s. NaN) \<rparr>, \<lparr> clock = 7000, dateParse = (\<lambda>s. NaN) \<rparr>,
                    \<lparr> clock = 8000, dateParse = (\<lambda>s. NaN) \<rparr>]
        (Some \<lparr> timezone = None, showSecondsThreshold = None, separator = None, showZeros = None,
                t = None, keys = None, interval = None, autoStart = None, onExpire = Some Suc,
                rest_showHours = None, rest_showSeconds = None \<rparr>)
        \<lparr> currentTarget = Some (DateObject (Num 5000)), isActive = True,
          timeRemaining = expiredSentinel, world = (0::nat) \<rparr>)
      = (Suc ^^ length [\<lparr> clock = 6000, dateParse = (\<lambda>s. NaN) \<rparr>, \<lparr> clock = 7000, dateParse = (\<lambda>s. NaN) \<rparr>,
                    \<lparr> clock = 8000, dateParse = (\<lambda>s. NaN) \<rparr>])
          (world \<lparr> currentTarget = Some (DateObject (Num 5000)), isActive = True,
              timeRemaining = expiredSentinel, world = (0::nat) \<rparr>)"
    by blast
  then have "world (ticks [\<lparr> clock = 6000, dateParse = (\<lambda>s. NaN) \<rparr>, \<lparr> clock = 7000, dateParse = (\<lambda>s. NaN) \<rparr>,
                    \<lparr> clock = 8000, dateParse = (\<lambda>s. NaN) \<rparr>]
        (Some \<lparr> timezone = None, showSecondsThreshold = None, separator = None, showZeros = None,
                t = None, keys = None, interval = None, autoStart = None, onExpire = Some Suc,
                rest_showHours = None, rest_showSeconds = None \<rparr>)
        \<lparr> currentTarget = Some (DateObject (Num 5000)), isActive = True,
          timeRemaining = expiredSentinel, world = (0::nat) \<rparr>) = 3"
    by (simp add: numeral_3_eq_3)
  moreover have "getTime \<lparr> clock = 6000, dateParse = (\<lambda>s. NaN) \<rparr> (DateObject (Num 5000)) = Num 5000"
    "getTime \<lparr> clock = 7000, dateParse = (\<lambda>s. NaN) \<rparr> (DateObject (Num 5000)) = Num 5000"
    "getTime \<lparr> clock = 8000, dateParse = (\<lambda>s. NaN) \<rparr> (DateObject (Num 5000)) = Num 5000"
    by (simp_all add: getTime_def)
  moreover have "(5000::int) \<le> clock \<lparr> clock = 6000, dateParse = (\<lambda>s. NaN) \<rparr>"
    "(5000::int) \<le> clock \<lparr> clock = 7000, dateParse = (\<lambda>s. NaN) \<rparr>"
    "(5000::int) \<le> clock \<lparr> clock = 8000, dateParse = (\<lambda>s. NaN) \<rparr>"
    by simp_all
  ultimately show ?thesis using h1 h2 by blast
qed

lemma no_target_state:
  assumes "currentTarget st = None"
  shows "updateCountdown e options st = st\<lparr> timeRemaining := expiredSentinel \<rparr>"
    and "tick e options st = st"
  using assms by (simp_all add: updateCountdown_def tick_def present_def)

lemma ticks_no_target:
  "currentTarget st = None \<Longrightarrow> ticks es options st = st"
  by (induction es arbitrary: st) (simp_all add: no_target_state)

lemma return_no_target:
  assumes "currentTarget st = None"
  shows "useCountdown_return e options st =
    \<lparr> returned_timeRemaining = timeRemaining st, formatted = [], short = [], compact = [],
      returned_isActive = isActive st \<rparr>"
  using assms by (simp add: useCountdown_return_def present_def)

text \<open>The hook forwards \<^verbatim>\<open>showHours\<close>: 2 h 34 min 10 s with \<^verbatim>\<open>showHours: false\<close>.\<close>

lemma compact_forwarded:
  "compact (useCountdown_return \<lparr> clock = 0, dateParse = (\<lambda>s. NaN) \<rparr>
       (Some \<lparr> timezone = None, showSecondsThreshold = None, separator = None, showZeros = None,
               t = None, keys = None, interval = None, autoStart = None,
               onExpire = (None :: (nat \<Rightarrow> nat) option),
               rest_showHours = Some False, rest_showSeconds = None \<rparr>)
       \<lparr> currentTarget = Some (DateObject (Num 9250000)), isActive = True,
         timeRemaining = expiredSentinel, world = (0::nat) \<rparr>) = ''154:10''"
proof -
  have r: "calculateTimeRemaining \<lparr> clock = 0, dateParse = (\<lambda>s. NaN) \<rparr> (DateObject (Num 9250000))
        (None :: TimezoneOptions option) =
      \<lparr> hours = Num 2, minutes = Num 34, seconds = Num 10, totalSeconds = Num 9250, isExpired = False \<rparr>"
    by (simp add: calculateTimeRemaining_def difference_def getTime_def)
  have d: "digitsOf 154 = ''154''"
    by (simp add: digitsOf.simps [of 154] digitsOf_two_digits digitChar_def)
  show ?thesis
    by (simp add: useCountdown_return_def present_def compactOptionsOf_def optional_def
        formatCountdownCompact_def r orDefault_def Let_def padStart_def d digitsOf_two_digits
        digitChar_def)
qed

lemma init_with_target:
  "useCountdown_init \<lparr> clock = 1000, dateParse = (\<lambda>s. NaN) \<rparr> (Given (DateObject (Num 91000))) None w =
     \<lparr> currentTarget = Some (DateObject (Num 91000)), isActive = True,
       timeRemaining = \<lparr> hours = Num 0, minutes = Num 1, seconds = Num 30, totalSeconds = Num 90,
                         isExpired = False \<rparr>,
       world = w \<rparr>"
  by (simp add: useCountdown_init_def present_def optional_def orDefault_def formatOptionsOf_def
      calculateTimeRemaining_def difference_def getTime_def)

text \<open>
  Claim C10, as stated, fails for a hook that is given \<^verbatim>\<open>undefined\<close> or \<^verbatim>\<open>null\<close> after a
  target. The effect on the target is guarded by \<^verbatim>\<open>targetDate !== undefined\<close>, so with
  \<^verbatim>\<open>undefined\<close> the hook keeps the target it had: for a target 90 seconds ahead the three
  strings are \<^verbatim>\<open>"1 minute 30 seconds"\<close>, \<^verbatim>\<open>"1m 30s"\<close> and \<^verbatim>\<open>"00:01:30"\<close>, and the published
  remaining time is that target's. With \<^verbatim>\<open>null\<close> the effect calls the \<^verbatim>\<open>updateCountdown\<close> of
  the render that scheduled it, which still sees the old target, so what this run of the
  effect publishes is the old target's remaining time, not the zero one.
\<close>

theorem useCountdown_undefined_after_target:
  "formatted (useCountdown_return \<lparr> clock = 1000, dateParse = (\<lambda>s. NaN) \<rparr> None
       (targetEffect \<lparr> clock = 1000, dateParse = (\<lambda>s. NaN) \<rparr> Undefined None
          (useCountdown_init \<lparr> clock = 1000, dateParse = (\<lambda>s. NaN) \<rparr>
             (Given (DateObject (Num 91000))) None (0::nat))))
     = ''1 minute 30 seconds''
   \<and> short (useCountdown_return \<lparr> clock = 1000, dateParse = (\<lambda>s. NaN) \<rparr> None
       (targetEffect \<lparr> clock = 1000, dateParse = (\<lambda>s. NaN) \<rparr> Undefined None
          (useCountdown_init \<lparr> clock = 1000, dateParse = (\<lambda>s. NaN) \<rparr>
             (Given (DateObject (Num 91000))) None (0::nat))))
     = ''1m 30s''
   \<and> compact (useCountdown_return \<lparr> clock = 1000, dateParse = (\<lambda>s. NaN) \<rparr> None
       (targetEffect \<lparr> clock = 1000, dateParse = (\<lambda>s. NaN) \<rparr> Undefined None
          (useCountdown_init \<lparr> clock = 1000, dateParse = (\<lambda>s. NaN) \<rparr>
             (Given (DateObject (Num 91000))) None (0::nat))))
     = ''00:01:30''
   \<and> timeRemaining
       (targetEffect \<lparr> clock = 1000, dateParse = (\<lambda>s. NaN) \<rparr> Undefined None
          (useCountdown_init \<lparr> clock = 1000, dateParse = (\<lambda>s. NaN) \<rparr>
             (Given (DateObject (Num 91000))) None (0::nat)))
     = \<lparr> hours = Num 0, minutes = Num 1, seconds = Num 30, totalSeconds = Num 90, isExpired = False \<rparr>
   \<and> timeRemaining
       (targetEffect \<lparr> clock = 1000, dateParse = (\<lambda>s. NaN) \<rparr> Null None
          (useCountdown_init \<lparr> clock = 1000, dateParse = (\<lambda>s. NaN) \<rparr>
             (Given (DateObject (Num 91000))) None (0::nat)))
     = \<lparr> hours = Num 0, minutes = Num 1, seconds = Num 30, totalSeconds = Num 90, isExpired = False \<rparr>"
proof -
  define e where "e = \<lparr> clock = 1000, dateParse = (\<lambda>s. NaN) \<rparr>"
  define tg where "tg = DateObject (Num 91000)"
  define st where "st = useCountdown_init e (Given tg) None (0::nat)"
  have st: "st = \<lparr> currentTarget = Some tg, isActive = True,
       timeRemaining = \<lparr> hours = Num 0, minutes = Num 1, seconds = Num 30, totalSeconds = Num 90,
                         isExpired = False \<rparr>,
       world = 0 \<rparr>"
    unfolding st_def e_def tg_def by (rule init_with_target)
  have r: "\<And>o'. calculateTimeRemaining e tg o' =
      \<lparr> hours = Num 0, minutes = Num 1, seconds = Num 30, totalSeconds = Num 90, isExpired = False \<rparr>"
    by (simp add: calculateTimeRemaining_def difference_def getTime_def e_def tg_def)
  have u: "targetEffect e Undefined None st = st"
    by (simp add: targetEffect_def)
  have p: "present (currentTarget st) = Some tg"
    by (simp add: st present_def tg_def)
  have f: "formatCountdown e tg (Some (formatOptionsOf None)) = ''1 minute 30 seconds''"
    by (simp add: formatCountdown_def r Let_def optional_def orDefault_def formatOptionsOf_def
        hoursPart_def minutesPart_def secondsPart_def plural_def singular_def keyOr_def
        digitsOf_two_digits digitChar_def)
  have sh: "formatCountdownShort e tg (Some (formatOptionsOf None)) = ''1m 30s''"
    by (simp add: formatCountdownShort_def r Let_def optional_def orDefault_def formatOptionsOf_def
        digitsOf_one_digit digitsOf_two_digits digitChar_def)
  have c: "formatCountdownCompact e tg (Some (compactOptionsOf None)) = ''00:01:30''"
    by (simp add: formatCountdownCompact_def r Let_def optional_def orDefault_def
        compactOptionsOf_def padStart_def digitsOf_one_digit digitsOf_two_digits digitChar_def)
  have ret: "useCountdown_return e None st =
      \<lparr> returned_timeRemaining = timeRemaining st, formatted = ''1 minute 30 seconds'',
        short = ''1m 30s'', compact = ''00:01:30'', returned_isActive = isActive st \<rparr>"
    by (simp add: useCountdown_return_def p f sh c Let_def)
  have n: "timeRemaining (targetEffect e Null None st) =
      \<lparr> hours = Num 0, minutes = Num 1, seconds = Num 30, totalSeconds = Num 90, isExpired = False \<rparr>"
    by (simp add: targetEffect_def updateCountdown_def p r Let_def optional_def)
  have t: "timeRemaining st =
      \<lparr> hours = Num 0, minutes = Num 1, seconds = Num 30, totalSeconds = Num 90, isExpired = False \<rparr>"
    by (simp add: st)
  show ?thesis
    using ret n t unfolding u e_def [symmetric] tg_def [symmetric] st_def [symmetric] u
    by simp
qed

text \<open>
  Claim C10, amended: when the hook is mounted with \<^verbatim>\<open>null\<close> or \<^verbatim>\<open>undefined\<close> as the target,
  the first render publishes the zero, expired \<open>timeRemaining\<close> and returns the empty
  string as \<open>formatted\<close>, \<open>short\<close> and \<open>compact\<close>, which are not the sentinels
  \<^verbatim>\<open>"Available now"\<close>, \<^verbatim>\<open>"0m"\<close>, \<^verbatim>\<open>"0:00:00"\<close> of the formatters; the same is returned after
  the effect on that target and any number of ticks.
\<close>

theorem useCountdown_without_target:
  "targetDate = Null \<or> targetDate = Undefined \<Longrightarrow>
     timeRemaining (useCountdown_init e targetDate options w) =
       \<lparr> hours = Num 0, minutes = Num 0, seconds = Num 0, totalSeconds = Num 0, isExpired = True \<rparr>
   \<and> useCountdown_return e' options (useCountdown_init e targetDate options w) =
       \<lparr> returned_timeRemaining =
           \<lparr> hours = Num 0, minutes = Num 0, seconds = Num 0, totalSeconds = Num 0, isExpired = True \<rparr>,
         formatted = [], short = [], compact = [],
         returned_isActive = orDefault (optional options autoStart) True \<rparr>
   \<and> useCountdown_return e' options
        (ticks es options (targetEffect e'' targetDate options (useCountdown_init e targetDate options w))) =
       \<lparr> returned_timeRemaining =
           \<lparr> hours = Num 0, minutes = Num 0, seconds = Num 0, totalSeconds = Num 0, isExpired = True \<rparr>,
         formatted = [], short = [], compact = [],
         returned_isActive = orDefault (optional options autoStart) True \<rparr>
   \<and> formatted (useCountdown_return e' options (useCountdown_init e targetDate options w))
        \<noteq> ''Available now''
   \<and> short (useCountdown_return e' options (useCountdown_init e targetDate options w)) \<noteq> ''0m''
   \<and> compact (useCountdown_return e' options (useCountdown_init e targetDate options w))
        \<noteq> ''0:00:00''"
proof -
  assume n: "targetDate = Null \<or> targetDate = Undefined"
  define st0 where "st0 = useCountdown_init e targetDate options w"
  define st1 where "st1 = targetEffect e'' targetDate options st0"
  have o: "orNull targetDate = None"
    using n by auto
  have st0: "st0 = \<lparr> currentTarget = None, isActive = orDefault (optional options autoStart) True,
      timeRemaining = expiredSentinel, world = w \<rparr>"
    by (simp add: st0_def useCountdown_init_def o present_def Let_def)
  have st1: "st1 = st0"
    using n by (auto simp: st1_def targetEffect_def o st0 no_target_state)
  have c: "currentTarget st0 = None"
    by (simp add: st0)
  have t: "ticks es options st1 = st0"
    by (simp add: st1 ticks_no_target c)
  have r: "useCountdown_return e' options st0 =
       \<lparr> returned_timeRemaining =
           \<lparr> hours = Num 0, minutes = Num 0, seconds = Num 0, totalSeconds = Num 0, isExpired = True \<rparr>,
         formatted = [], short = [], compact = [],
         returned_isActive = orDefault (optional options autoStart) True \<rparr>"
    by (simp add: return_no_target [OF c]) (simp add: st0 expiredSentinel_def)
  have "timeRemaining st0 =
       \<lparr> hours = Num 0, minutes = Num 0, seconds = Num 0, totalSeconds = Num 0, isExpired = True \<rparr>"
    by (simp add: st0 expiredSentinel_def)
  then show ?thesis
    using r t unfolding st1_def st0_def by simp
qed

theorem useCountdown_without_target_witness:
  "((Null :: targetInput) = Null \<or> (Null :: targetInput) = Undefined)
   \<and> useCountdown_return \<lparr> clock = 2000, dateParse = (\<lambda>s. NaN) \<rparr> None
        (useCountdown_init \<lparr> clock = 1000, dateParse = (\<lambda>s. NaN) \<rparr> Null None (0::nat)) =
       \<lparr> returned_timeRemaining =
           \<lparr> hours = Num 0, minutes = Num 0, seconds = Num 0, totalSeconds = Num 0, isExpired = True \<rparr>,
         formatted = [], short = [], compact = [], returned_isActive = True \<rparr>"
proof -
  have h: "(Null :: targetInput) = Null \<or> (Null :: targetInput) = Undefined"
    by simp
  from useCountdown_without_target [OF h, where e = "\<lparr> clock = 1000, dateParse = (\<lambda>s. NaN) \<rparr>"
      and e' = "\<lparr> clock = 2000, dateParse = (\<lambda>s. NaN) \<rparr>"
      and options = "None :: nat UseCountdownOptions option" and w = "0::nat"]
  have "useCountdown_return \<lparr> clock = 2000, dateParse = (\<lambda>s. NaN) \<rparr> None
        (useCountdown_init \<lparr> clock = 1000, dateParse = (\<lambda>s. NaN) \<rparr> Null None (0::nat)) =
       \<lparr> returned_timeRemaining =
           \<lparr> hours = Num 0, minutes = Num 0, seconds = Num 0, totalSeconds = Num 0, isExpired = True \<rparr>,
         formatted = [], short = [], compact = [],
         returned_isActive = orDefault (optional (None :: nat UseCountdownOptions option) autoStart) True \<rparr>"
    by blast
  then show ?thesis
    by (simp add: optional_def orDefault_def)
qed

end
